theory Spec2Isabelle
  imports Complex_Main
begin

section \<open>Numbers and vectors\<close>

text \<open>
  The simulation works on JavaScript numbers. They are modelled as mathematical reals:
  rounding, infinities and NaN are outside the model. A \<open>THREE.Vector3\<close> is a record of
  three reals; the few methods of the three.js library that the frame callbacks call are
  written out below with the meaning the library documents for them.
\<close>

record Vector3 =
  vx :: real
  vy :: real
  vz :: real

definition V3 :: "real \<Rightarrow> real \<Rightarrow> real \<Rightarrow> Vector3" where
  "V3 a b c = \<lparr>vx = a, vy = b, vz = c\<rparr>"

text \<open>\<open>a.distanceTo(b)\<close>: the Euclidean distance.\<close>

definition distanceTo :: "Vector3 \<Rightarrow> Vector3 \<Rightarrow> real" where
  "distanceTo a b = sqrt ((vx a - vx b)\<^sup>2 + (vy a - vy b)\<^sup>2 + (vz a - vz b)\<^sup>2)"

definition lengthSq :: "Vector3 \<Rightarrow> real" where
  "lengthSq v = (vx v)\<^sup>2 + (vy v)\<^sup>2 + (vz v)\<^sup>2"

definition multiplyScalar :: "Vector3 \<Rightarrow> real \<Rightarrow> Vector3" where
  "multiplyScalar v s = V3 (vx v * s) (vy v * s) (vz v * s)"

text \<open>\<open>v.normalize()\<close> is \<open>v.divideScalar(v.length() || 1)\<close>: the zero vector stays as it is.\<close>

definition normalize :: "Vector3 \<Rightarrow> Vector3" where
  "normalize v =
     (let l = sqrt (lengthSq v); d = (if l = 0 then 1 else l)
      in V3 (vx v / d) (vy v / d) (vz v / d))"

definition sub :: "Vector3 \<Rightarrow> Vector3 \<Rightarrow> Vector3" where
  "sub a b = V3 (vx a - vx b) (vy a - vy b) (vz a - vz b)"

definition add :: "Vector3 \<Rightarrow> Vector3 \<Rightarrow> Vector3" where
  "add a b = V3 (vx a + vx b) (vy a + vy b) (vz a + vz b)"

definition setY :: "Vector3 \<Rightarrow> real \<Rightarrow> Vector3" where
  "setY v b = v\<lparr>vy := b\<rparr>"

text \<open>\<open>v.lerp(w, alpha)\<close> moves \<open>v\<close> the fraction \<open>alpha\<close> of the way to \<open>w\<close>.\<close>

definition lerpV :: "Vector3 \<Rightarrow> Vector3 \<Rightarrow> real \<Rightarrow> Vector3" where
  "lerpV v w alpha =
     V3 (vx v + (vx w - vx v) * alpha) (vy v + (vy w - vy v) * alpha) (vz v + (vz w - vz v) * alpha)"

definition addScaledVector :: "Vector3 \<Rightarrow> Vector3 \<Rightarrow> real \<Rightarrow> Vector3" where
  "addScaledVector v w s = V3 (vx v + vx w * s) (vy v + vy w * s) (vz v + vz w * s)"

text \<open>\<open>v.applyAxisAngle(UP_AXIS, angle)\<close>: the rotation about the vertical axis.\<close>

definition applyAxisAngleUp :: "Vector3 \<Rightarrow> real \<Rightarrow> Vector3" where
  "applyAxisAngleUp v angle =
     V3 (vx v * cos angle + vz v * sin angle) (vy v) (vz v * cos angle - vx v * sin angle)"

text \<open>\<open>MathUtils.clamp(value, min, max)\<close> and \<open>MathUtils.lerp(x, y, t)\<close>.\<close>

definition clamp :: "real \<Rightarrow> real \<Rightarrow> real \<Rightarrow> real" where
  "clamp v lo hi = max lo (min hi v)"

definition lerp :: "real \<Rightarrow> real \<Rightarrow> real \<Rightarrow> real" where
  "lerp a b t = (1 - t) * a + t * b"

section \<open>The shared fire state (playerState.ts)\<close>

record FireState =
  fireCenters :: "Vector3 list"
  fireRadius :: real
  fireActive :: bool

text \<open>The module starts with no centers, radius 1.8 and the fire off.\<close>

definition playerActionState0 :: FireState where
  "playerActionState0 = \<lparr>fireCenters = [], fireRadius = 18 / 10, fireActive = False\<rparr>"

text \<open>\<open>updatePlayerFireState\<close> overwrites the three fields of the module's object.\<close>

definition updatePlayerFireState :: "Vector3 list \<Rightarrow> real \<Rightarrow> bool \<Rightarrow> FireState" where
  "updatePlayerFireState centers radius active =
     \<lparr>fireCenters = centers, fireRadius = radius, fireActive = active\<rparr>"

section \<open>The player controller (the Player component of playerState.ts)\<close>

text \<open>
  The keys of \<open>useInput\<close>, the shared joystick and fire button of the overlay, and what the
  frame reads from the renderer: the clock, and the two vectors three.js derives from the
  group's transform (\<open>tmpForward\<close>: the local direction \<open>(0, 0, -1)\<close> under the group's
  quaternion, normalised; \<open>mouthWorld\<close>: the local point \<open>(0, 3.8, 2.2)\<close> under the
  group's world matrix). The world matrix is maintained by the renderer, so both vectors
  are inputs of the frame here.
\<close>

record Input =
  forward :: bool
  backward :: bool
  left :: bool
  right :: bool
  fire :: bool

record PlayerFrame =
  isLocked :: bool
  input :: Input
  joystickX :: real
  joystickY :: real
  fireButtonPressed :: bool
  time :: real
  tmpForward :: Vector3
  mouthWorld :: Vector3

text \<open>
  The object named \<open>PlayerGroup\<close> in the scene: its Euler rotation and its position. The
  component keeps the logical position in a \<open>useState\<close> vector and the smoothed fire
  intensity in a ref; the fire state is the module-level object. The refs of the limbs,
  jaw, tail and flame cone and the camera follow are rendering only and are left out.
\<close>

record Group =
  rotation :: Vector3
  groupPosition :: Vector3

record PlayerWorld =
  groupRef :: "Group option"
  playerPosition :: Vector3
  fireIntensityRef :: real
  playerActionState :: FireState

definition FIRE_HIT_RADIUS :: real where "FIRE_HIT_RADIUS = 24 / 10"
definition FIRE_VISUAL_LENGTH :: real where "FIRE_VISUAL_LENGTH = 6"
definition FIRE_DROP_OFFSET :: Vector3 where "FIRE_DROP_OFFSET = V3 0 (- 2) 0"
definition speed :: real where "speed = 5 / 10"
definition rotationSpeed :: real where "rotationSpeed = 5 / 100"
definition altarPos :: Vector3 where "altarPos = V3 0 8 (- 110)"
definition monumentPos :: Vector3 where "monumentPos = V3 (- 30) 8 (- 105)"
definition debrisPos :: Vector3 where "debrisPos = V3 30 8 (- 105)"
definition stairStartZ :: real where "stairStartZ = - 5"
definition stairEndZ :: real where "stairEndZ = - 25"
definition topY :: real where "topY = 8"

definition checkTrigger :: "Vector3 \<Rightarrow> Vector3 \<Rightarrow> real \<Rightarrow> bool" where
  "checkTrigger p target rng = (distanceTo p target < rng)"

text \<open>Step 1 of the callback: keyboard axes, overridden by the joystick outside its dead zone.\<close>

definition moveAxes :: "PlayerFrame \<Rightarrow> real \<times> real" where
  "moveAxes f =
     (let i = input f;
          moveForward = (if forward i then 1 else 0) - (if backward i then 1 else (0::real));
          moveTurn = (if left i then 1 else 0) - (if right i then 1 else (0::real))
      in if \<bar>joystickY f\<bar> > 1 / 10 \<or> \<bar>joystickX f\<bar> > 1 / 10
         then (joystickY f, - joystickX f)
         else (moveForward, moveTurn))"

text \<open>Step 2: the proposed position, cut back to the walkable rectangle.\<close>

definition boundPosition :: "Vector3 \<Rightarrow> Vector3" where
  "boundPosition newPos =
     (let a = (if vx newPos > 35 then newPos\<lparr>vx := 35\<rparr> else newPos);
          b = (if vx a < - 35 then a\<lparr>vx := - 35\<rparr> else a);
          c = (if vz b > 15 then b\<lparr>vz := 15\<rparr> else b)
      in if vz c < - 125 then c\<lparr>vz := - 125\<rparr> else c)"

definition movePosition :: "Vector3 \<Rightarrow> real \<Rightarrow> real \<Rightarrow> Vector3" where
  "movePosition p rotY moveForward =
     (if moveForward \<noteq> 0
      then boundPosition
             (addScaledVector p (applyAxisAngleUp (V3 0 0 (- 1)) rotY) (moveForward * speed))
      else p)"

text \<open>Step 3: the height is recomputed from the depth \<open>z\<close> alone.\<close>

definition stairsY :: "real \<Rightarrow> real" where
  "stairsY z =
     (if z < stairStartZ \<and> z > stairEndZ
      then lerp 0 topY ((z - stairStartZ) / (stairEndZ - stairStartZ))
      else if z \<le> stairEndZ then topY
      else 0)"

text \<open>Step 4, as far as it moves the group: body bob and lean.\<close>

definition isMoving :: "real \<Rightarrow> real \<Rightarrow> bool" where
  "isMoving moveForward moveTurn = (\<bar>moveForward\<bar> > 1 / 10 \<or> \<bar>moveTurn\<bar> > 1 / 10)"

definition bob :: "real \<Rightarrow> real \<Rightarrow> real \<Rightarrow> real" where
  "bob t moveForward moveTurn =
     (if isMoving moveForward moveTurn then sin (t * 10) * (15 / 100)
      else sin (t * (15 / 10)) * (2 / 100))"

text \<open>Step 6: the four target points of the breath.\<close>

definition fireTargets :: "Vector3 \<Rightarrow> Vector3 \<Rightarrow> Vector3 list" where
  "fireTargets mouth fwd =
     [addScaledVector mouth fwd (15 / 10),
      addScaledVector mouth fwd 3,
      addScaledVector mouth fwd FIRE_VISUAL_LENGTH,
      add (addScaledVector mouth fwd 2) FIRE_DROP_OFFSET]"

text \<open>Step 7: the landmark triggers, in the order of the source.\<close>

definition triggers :: "Vector3 \<Rightarrow> string list" where
  "triggers p =
     (if checkTrigger p altarPos 12 then [''https://www.zhenggdove.com/exhibition''] else []) @
     (if checkTrigger p monumentPos 12 then [''https://www.zhenggdove.com/bio''] else []) @
     (if checkTrigger p debrisPos 12
      then [''https://www.zhenggdove.com/category/all-products''] else [])"

text \<open>
  The \<open>useFrame\<close> callback of \<open>Player\<close>. It returns the world after the frame and the
  destinations passed to \<open>onTrigger\<close>, in order. Without a mounted group it returns at
  once; when locked it only switches the fire state off.
\<close>

definition Player_useFrame :: "PlayerFrame \<Rightarrow> PlayerWorld \<Rightarrow> PlayerWorld \<times> string list" where
  "Player_useFrame f w =
     (case groupRef w of
        None \<Rightarrow> (w, [])
      | Some g \<Rightarrow>
          if isLocked f
          then (w\<lparr>playerActionState := updatePlayerFireState [] FIRE_HIT_RADIUS False\<rparr>, [])
          else
            let (moveForward, moveTurn) = moveAxes f;
                rotY = vy (rotation g) + moveTurn * rotationSpeed;
                moved = movePosition (playerPosition w) rotY moveForward;
                p = moved\<lparr>vy := stairsY (vz moved)\<rparr>;
                targetTilt = (if isMoving moveForward moveTurn then moveForward * (2 / 10) else 0);
                rot = V3 (lerp (vx (rotation g)) targetTilt (1 / 10)) rotY
                         (lerp (vz (rotation g)) (moveTurn * - (1 / 10)) (1 / 10));
                g' = \<lparr>rotation = rot,
                      groupPosition = p\<lparr>vy := vy p + (bob (time f) moveForward moveTurn + 27 / 10)\<rparr>\<rparr>;
                firing = ((fire (input f) \<or> fireButtonPressed f) \<and> \<not> isLocked f);
                intensity = lerp (fireIntensityRef w) (if firing then 1 else 0)
                              (if firing then 2 / 10 else 18 / 100)
            in (\<lparr>groupRef = Some g',
                 playerPosition = p,
                 fireIntensityRef = intensity,
                 playerActionState =
                   updatePlayerFireState (fireTargets (mouthWorld f) (tmpForward f))
                     FIRE_HIT_RADIUS (intensity > 5 / 100)\<rparr>,
                triggers p))"

text \<open>The component starts at \<open>(0, 0, 10)\<close> with no fire.\<close>

definition PlayerWorld0 :: "Group option \<Rightarrow> PlayerWorld" where
  "PlayerWorld0 g =
     \<lparr>groupRef = g, playerPosition = V3 0 0 10, fireIntensityRef = 0,
      playerActionState = playerActionState0\<rparr>"

section \<open>The creature behaviour engine: what the three files share\<close>

text \<open>
  The repository holds three versions of the \<open>Chickens\<close> component:
  \<^item> \<open>Chickens.tsx\<close>: three modes, a fixed roster, a captured creature fades and stays
    captured (definitions with the suffix \<open>F\<close>);
  \<^item> the second file of the unnamed source: a fourth mode \<open>respawn\<close>, the same record comes
    back as a fresh chick (suffix \<open>R\<close>);
  \<^item> the first file of the unnamed source: a global respawn timer appends new chicks to the
    roster and collected drumsticks stay in it (suffix \<open>G\<close>).
  The mode strings are one datatype; the files whose type has no \<open>'respawn'\<close> never produce
  \<open>Respawn\<close>.
\<close>

datatype ChickenMode = Wander | Chase | Drumstick | Respawn

datatype Event = PlayerHit | DrumstickCollected | Vibrate

text \<open>
  What a frame callback reads: \<open>delta\<close>, the clock, the world position of the object named
  \<open>PlayerGroup\<close> when the scene has one, the fire state of the module, whether
  \<open>navigator.vibrate\<close> exists, and \<open>Math.random()\<close>: \<open>random e i n\<close> is the \<open>n\<close>-th
  number drawn while chicken \<open>i\<close> is updated. The clock is read once per chicken.
\<close>

record Frame =
  delta :: real
  elapsedTime :: real
  player :: "Vector3 option"
  playerFire :: FireState
  canVibrate :: bool
  random :: "nat \<Rightarrow> nat \<Rightarrow> real"

text \<open>The tunable constants at the head of each file.\<close>

record Params =
  BASE_HEIGHT :: real
  AREA_X :: real
  AREA_Z_MIN :: real
  AREA_Z_MAX :: real
  WANDER_SPEED :: real
  CHASE_SPEED :: real
  ALERT_RADIUS :: real
  HIT_RADIUS :: real
  HOP_HEIGHT :: real
  HOP_SPEED :: real
  DRUMSTICK_DURATION :: real
  startZ :: real

definition paramsF :: Params where
  "paramsF = \<lparr>BASE_HEIGHT = 8, AREA_X = 32, AREA_Z_MIN = - 120, AREA_Z_MAX = - 60,
     WANDER_SPEED = 12 / 10, CHASE_SPEED = 22 / 10, ALERT_RADIUS = 14, HIT_RADIUS = 21 / 10,
     HOP_HEIGHT = 65 / 100, HOP_SPEED = 55 / 10, DRUMSTICK_DURATION = 5, startZ = - 100\<rparr>"

definition paramsR :: Params where
  "paramsR = \<lparr>BASE_HEIGHT = 85 / 10, AREA_X = 32, AREA_Z_MIN = - 90, AREA_Z_MAX = - 55,
     WANDER_SPEED = 12 / 10, CHASE_SPEED = 22 / 10, ALERT_RADIUS = 14, HIT_RADIUS = 21 / 10,
     HOP_HEIGHT = 65 / 100, HOP_SPEED = 55 / 10, DRUMSTICK_DURATION = 5, startZ = - 75\<rparr>"

text \<open>The first unnamed file has no fixed start line; \<open>startZ\<close> is unused there.\<close>

definition paramsG :: Params where
  "paramsG = \<lparr>BASE_HEIGHT = 85 / 10, AREA_X = 30, AREA_Z_MIN = - 90, AREA_Z_MAX = - 55,
     WANDER_SPEED = 2, CHASE_SPEED = 4, ALERT_RADIUS = 16, HIT_RADIUS = 25 / 10,
     HOP_HEIGHT = 7 / 10, HOP_SPEED = 5, DRUMSTICK_DURATION = 8, startZ = 0\<rparr>"

definition CHICKEN_COUNT :: nat where "CHICKEN_COUNT = 5"
definition FIRE_PADDING :: real where "FIRE_PADDING = 2 / 10"
definition FIRE_VERTICAL_TOLERANCE :: real where "FIRE_VERTICAL_TOLERANCE = 6"
definition DRUMSTICK_PICKUP_RADIUS :: real where "DRUMSTICK_PICKUP_RADIUS = 16 / 10"
definition RESPAWN_DELAY :: real where "RESPAWN_DELAY = 3"
definition FOOT_FIRE_HALF_X :: real where "FOOT_FIRE_HALF_X = 4"
definition FOOT_FIRE_HALF_Z :: real where "FOOT_FIRE_HALF_Z = 4"
definition FOOT_FIRE_HEIGHT :: real where "FOOT_FIRE_HEIGHT = 3"
definition FIRE_RECT_RANGE :: real where "FIRE_RECT_RANGE = 8"
definition HEART_BASE_HEIGHT :: real where "HEART_BASE_HEIGHT = 6"
definition HEART_GAP :: real where "HEART_GAP = 8 / 10"
definition HIT_COOLDOWN :: real where "HIT_COOLDOWN = 3 / 10"
definition startXs :: "real list" where "startXs = [- 12, - 6, 0, 6, 12]"

text \<open>
  \<open>ChickenState\<close> of \<open>Chickens.tsx\<close>; the file with the respawn mode adds one field.
\<close>

record ChickenState =
  position :: Vector3
  velocity :: Vector3
  wanderDir :: real
  wanderTimer :: real
  hopOffset :: real
  mode :: ChickenMode
  alert :: bool
  drumstickTimer :: real
  drumstickOpacity :: real
  lastPlayerHit :: real

record ChickenStateR = ChickenState +
  respawnTimer :: real

text \<open>The component's refs: the roster and the last player position read.\<close>

record 'c Flock =
  chickensRef :: "'c list"
  playerPos :: Vector3

text \<open>
  The wander and chase code, from the distance to the player down to the hop; the two files
  have the same text with their own constants. \<open>rnd 0\<close> and \<open>rnd 1\<close> are the two numbers
  drawn when the wander timer runs out. \<open>desiredVelocity\<close> is \<open>targetVel\<close>: the flattened
  direction (to the player when alert, else the wander heading), normalised unless it is
  shorter than 0.01, times the speed of the mode.
\<close>

definition desiredVelocity :: "Params \<Rightarrow> Vector3 \<Rightarrow> Vector3 \<Rightarrow> bool \<Rightarrow> real \<Rightarrow> Vector3" where
  "desiredVelocity k p q al wd =
     (let dir0 = (if al then sub p q else V3 (sin wd) 0 (cos wd))\<lparr>vy := 0\<rparr>;
          dir = (if lengthSq dir0 > 1 / 10000 then normalize dir0 else dir0)
      in multiplyScalar dir (if al then CHASE_SPEED k else WANDER_SPEED k))"

definition moveChicken ::
  "Params \<Rightarrow> Frame \<Rightarrow> Vector3 \<Rightarrow> (nat \<Rightarrow> real) \<Rightarrow>
   'a ChickenState_scheme \<Rightarrow> 'a ChickenState_scheme" where
  "moveChicken k e p rnd chicken =
     (let distToPlayer = distanceTo (position chicken) p;
          al = (distToPlayer < ALERT_RADIUS k);
          t = wanderTimer chicken - delta e;
          wt = (if t \<le> 0 then 15 / 10 + rnd 0 * (25 / 10) else t);
          wd = (if t \<le> 0 then rnd 1 * pi * 2 else wanderDir chicken);
          targetVel = desiredVelocity k p (position chicken) al wd;
          vel = lerpV (velocity chicken) targetVel (12 / 100);
          pos = addScaledVector (position chicken) vel (delta e);
          hop = sin (elapsedTime e * HOP_SPEED k + hopOffset chicken) * HOP_HEIGHT k
      in chicken\<lparr>alert := al,
                 mode := (if al then Chase else Wander),
                 wanderTimer := wt,
                 wanderDir := wd,
                 velocity := vel,
                 position := V3 (clamp (vx pos) (- AREA_X k) (AREA_X k))
                               (BASE_HEIGHT k + hop)
                               (clamp (vz pos) (AREA_Z_MIN k) (AREA_Z_MAX k))\<rparr>)"

text \<open>The hit test against the player, on the distance measured before the move.\<close>

definition hitsPlayer :: "Params \<Rightarrow> Frame \<Rightarrow> Vector3 \<Rightarrow> 'a ChickenState_scheme \<Rightarrow> bool" where
  "hitsPlayer k e p chicken =
     (distanceTo (position chicken) p < HIT_RADIUS k \<and>
      elapsedTime e - lastPlayerHit chicken > HIT_COOLDOWN)"

text \<open>The five assignments of a fire hit.\<close>

definition capture :: "Params \<Rightarrow> 'a ChickenState_scheme \<Rightarrow> 'a ChickenState_scheme" where
  "capture k chicken =
     chicken\<lparr>mode := Drumstick, drumstickTimer := 0, drumstickOpacity := 1,
             velocity := V3 0 0 0, position := (position chicken)\<lparr>vy := BASE_HEIGHT k\<rparr>\<rparr>"

text \<open>The first lines of the drumstick branch, the same in both files.\<close>

definition fade :: "Params \<Rightarrow> Frame \<Rightarrow> 'a ChickenState_scheme \<Rightarrow> 'a ChickenState_scheme" where
  "fade k e chicken =
     chicken\<lparr>drumstickTimer := drumstickTimer chicken + delta e,
             drumstickOpacity :=
               max 0 (1 - (drumstickTimer chicken + delta e) / DRUMSTICK_DURATION k),
             alert := False,
             velocity := V3 0 0 0,
             position := (position chicken)\<lparr>vy := BASE_HEIGHT k\<rparr>\<rparr>"

section \<open>Chickens.tsx: three modes, fixed roster\<close>

definition createInitialChickensF :: "(nat \<Rightarrow> nat \<Rightarrow> real) \<Rightarrow> ChickenState list" where
  "createInitialChickensF rnd =
     map (\<lambda>i. \<lparr>position = V3 (startXs ! (i mod length startXs) + (rnd i 0 - 1 / 2) * (15 / 10))
                            (BASE_HEIGHT paramsF)
                            (startZ paramsF + (rnd i 1 - 1 / 2) * 4),
               velocity = V3 0 0 0,
               wanderDir = rnd i 2 * pi * 2,
               wanderTimer = 15 / 10 + rnd i 3 * (15 / 10),
               hopOffset = rnd i 4 * pi * 2,
               mode = Wander,
               alert = False,
               drumstickTimer = 0,
               drumstickOpacity = 1,
               lastPlayerHit = - 10\<rparr>)
         [0 ..< CHICKEN_COUNT]"

text \<open>The loop over the fire centers: the first center closer than radius plus padding.\<close>

definition fireCenterHitF :: "FireState \<Rightarrow> Vector3 \<Rightarrow> bool" where
  "fireCenterHitF fs pos =
     (\<exists>center \<in> set (fireCenters fs). distanceTo center pos < fireRadius fs + FIRE_PADDING)"

text \<open>The body of \<open>forEach\<close>: the chicken after the frame and the callbacks it made.\<close>

definition updateChickenF ::
  "Frame \<Rightarrow> Vector3 \<Rightarrow> (nat \<Rightarrow> real) \<Rightarrow> ChickenState \<Rightarrow> ChickenState \<times> Event list" where
  "updateChickenF e p rnd chicken =
     (if mode chicken = Drumstick then (fade paramsF e chicken, [])
      else
        let hit = hitsPlayer paramsF e p chicken;
            c1 = moveChicken paramsF e p rnd chicken;
            c2 = (if hit then c1\<lparr>lastPlayerHit := elapsedTime e\<rparr> else c1);
            c3 = (if fireActive (playerFire e) \<and> fireCenterHitF (playerFire e) (position c2)
                  then capture paramsF c2 else c2)
        in (c3, if hit then [PlayerHit] else []))"

definition indexed :: "'a list \<Rightarrow> (nat \<times> 'a) list" where
  "indexed xs = zip [0 ..< length xs] xs"

text \<open>The \<open>useFrame\<close> callback: nothing happens when the scene has no \<open>PlayerGroup\<close>.\<close>

definition Chickens_useFrameF ::
  "Frame \<Rightarrow> ChickenState Flock \<Rightarrow> ChickenState Flock \<times> Event list" where
  "Chickens_useFrameF e s =
     (case player e of
        None \<Rightarrow> (s, [])
      | Some p \<Rightarrow>
          let rs = map (\<lambda>(i, c). updateChickenF e p (random e i) c) (indexed (chickensRef s))
          in (\<lparr>chickensRef = map fst rs, playerPos = p\<rparr>, concat (map snd rs)))"

section \<open>The file with the respawn mode\<close>

definition createInitialChickensR :: "(nat \<Rightarrow> nat \<Rightarrow> real) \<Rightarrow> ChickenStateR list" where
  "createInitialChickensR rnd =
     map (\<lambda>i. \<lparr>position = V3 (startXs ! (i mod length startXs) + (rnd i 0 - 1 / 2) * (15 / 10))
                            (BASE_HEIGHT paramsR)
                            (startZ paramsR + (rnd i 1 - 1 / 2) * 4),
               velocity = V3 0 0 0,
               wanderDir = rnd i 2 * pi * 2,
               wanderTimer = 15 / 10 + rnd i 3 * (15 / 10),
               hopOffset = rnd i 4 * pi * 2,
               mode = Wander,
               alert = False,
               drumstickTimer = 0,
               drumstickOpacity = 1,
               lastPlayerHit = - 10,
               respawnTimer = 0\<rparr>)
         [0 ..< CHICKEN_COUNT]"

text \<open>
  \<open>randomizeChicken\<close> draws six numbers: the start column \<open>Math.floor(Math.random() * 5)\<close>,
  the two offsets, heading, timer and hop phase. \<open>Math.random()\<close> is in \<open>[0, 1)\<close>, so the
  column is one of the five.
\<close>

definition randomizeChicken :: "(nat \<Rightarrow> real) \<Rightarrow> ChickenStateR \<Rightarrow> ChickenStateR" where
  "randomizeChicken rnd chicken =
     (let seed = nat \<lfloor>rnd 0 * real (length startXs)\<rfloor>
      in chicken\<lparr>position := V3 (startXs ! seed + (rnd 1 - 1 / 2) * (15 / 10))
                                 (BASE_HEIGHT paramsR)
                                 (startZ paramsR + (rnd 2 - 1 / 2) * 4),
                 velocity := V3 0 0 0,
                 wanderDir := rnd 3 * pi * 2,
                 wanderTimer := 15 / 10 + rnd 4 * (15 / 10),
                 hopOffset := rnd 5 * pi * 2,
                 mode := Wander,
                 alert := False,
                 drumstickTimer := 0,
                 drumstickOpacity := 1,
                 respawnTimer := 0,
                 lastPlayerHit := - 10\<rparr>)"

text \<open>The foot-level box under the player, tested on the position the frame starts with.\<close>

definition footFireHit :: "Vector3 \<Rightarrow> Vector3 \<Rightarrow> bool" where
  "footFireHit p pos =
     (\<bar>vx pos - vx p\<bar> \<le> FOOT_FIRE_HALF_X \<and> \<bar>vz pos - vz p\<bar> \<le> FOOT_FIRE_HALF_Z \<and>
      \<bar>vy pos - vy p\<bar> \<le> FOOT_FIRE_HEIGHT)"

text \<open>
  The loop over the fire centers: a center further than the vertical tolerance above or
  below is passed over; otherwise the flat distance \<open>Math.hypot(dx, dz)\<close> decides.
\<close>

fun fireCenterHitR :: "real \<Rightarrow> Vector3 \<Rightarrow> Vector3 list \<Rightarrow> bool" where
  "fireCenterHitR r pos [] = False"
| "fireCenterHitR r pos (center # centers) =
     (if \<bar>vy center - vy pos\<bar> > FIRE_VERTICAL_TOLERANCE then fireCenterHitR r pos centers
      else if sqrt ((vx center - vx pos)\<^sup>2 + (vz center - vz pos)\<^sup>2) < r + FIRE_PADDING then True
      else fireCenterHitR r pos centers)"

text \<open>The drumstick branch: fade, pickup by the player, automatic clearing when faded out.\<close>

definition drumstickR ::
  "Frame \<Rightarrow> Vector3 \<Rightarrow> ChickenStateR \<Rightarrow> ChickenStateR \<times> Event list" where
  "drumstickR e p chicken =
     (let c1 = fade paramsR e chicken;
          pickup = (distanceTo (position c1) p < DRUMSTICK_PICKUP_RADIUS);
          c2 = (if pickup then c1\<lparr>mode := Respawn, drumstickOpacity := 0, respawnTimer := 0\<rparr>
                else c1);
          c3 = (if drumstickOpacity c2 \<le> 1 / 100 then c2\<lparr>mode := Respawn, respawnTimer := 0\<rparr>
                else c2)
      in (c3, if pickup then [DrumstickCollected] else []))"

definition updateChickenR ::
  "Frame \<Rightarrow> Vector3 \<Rightarrow> (nat \<Rightarrow> real) \<Rightarrow> ChickenStateR \<Rightarrow> ChickenStateR \<times> Event list" where
  "updateChickenR e p rnd chicken =
     (if mode chicken = Respawn then
        (let c1 = chicken\<lparr>respawnTimer := respawnTimer chicken + delta e\<rparr>
         in (if respawnTimer c1 \<ge> RESPAWN_DELAY then randomizeChicken rnd c1 else c1, []))
      else if mode chicken = Drumstick then drumstickR e p chicken
      else if fireActive (playerFire e) \<and> footFireHit p (position chicken)
      then (capture paramsR chicken, [])
      else
        let hit = hitsPlayer paramsR e p chicken;
            c1 = moveChicken paramsR e p rnd chicken;
            c2 = (if hit then c1\<lparr>lastPlayerHit := elapsedTime e\<rparr> else c1);
            c3 = (if fireActive (playerFire e) \<and>
                     fireCenterHitR (fireRadius (playerFire e)) (position c2)
                       (fireCenters (playerFire e))
                  then capture paramsR c2 else c2)
        in (c3, if hit then PlayerHit # (if canVibrate e then [Vibrate] else []) else []))"

definition Chickens_useFrameR ::
  "Frame \<Rightarrow> ChickenStateR Flock \<Rightarrow> ChickenStateR Flock \<times> Event list" where
  "Chickens_useFrameR e s =
     (case player e of
        None \<Rightarrow> (s, [])
      | Some p \<Rightarrow>
          let rs = map (\<lambda>(i, c). updateChickenR e p (random e i) c) (indexed (chickensRef s))
          in (\<lparr>chickensRef = map fst rs, playerPos = p\<rparr>, concat (map snd rs)))"

section \<open>The file with the global respawn timer\<close>

text \<open>
  \<open>Chick\<close>: the fields \<open>mode\<close> and \<open>alert\<close> of the source are \<open>cmode\<close> and \<open>calert\<close> here;
  the optional \<open>collected\<close> is false while absent. The frame also draws the random numbers
  of a new chick (\<open>spawnRandom\<close>). The fire state this file imports has the fields
  \<open>active\<close>, \<open>centers\<close> and \<open>radius\<close>; it is the same record.
\<close>

record Chick =
  pos :: Vector3
  vel :: Vector3
  dir :: real
  timer :: real
  hopOff :: real
  cmode :: ChickenMode
  calert :: bool
  drumTime :: real
  opacity :: real
  collected :: bool

record FlockG =
  chickens :: "Chick list"
  respawnTimerRef :: real
  heartCountRef :: nat
  heartHeights :: "real list"
  playerPosG :: Vector3

record FrameG = Frame +
  spawnRandom :: "nat \<Rightarrow> real"

text \<open>The object literal of a new chick, written twice in the source.\<close>

definition newChick :: "(nat \<Rightarrow> real) \<Rightarrow> Chick" where
  "newChick rnd =
     \<lparr>pos = V3 ((rnd 0 - 1 / 2) * AREA_X paramsG * (16 / 10))
               (BASE_HEIGHT paramsG)
               (lerp (AREA_Z_MIN paramsG) (AREA_Z_MAX paramsG) (rnd 1)),
      vel = V3 0 0 0,
      dir = rnd 2 * pi * 2,
      timer = 1 + rnd 3 * (15 / 10),
      hopOff = rnd 4 * pi * 2,
      cmode = Wander,
      calert = False,
      drumTime = 0,
      opacity = 1,
      collected = False\<rparr>"

definition createInitialChicks :: "(nat \<Rightarrow> nat \<Rightarrow> real) \<Rightarrow> Chick list" where
  "createInitialChicks rnd = map (\<lambda>i. newChick (rnd i)) [0 ..< CHICKEN_COUNT]"

text \<open>Here only the direction to the player is flattened (\<open>setY(0)\<close>).\<close>

definition desiredVelocityG :: "Vector3 \<Rightarrow> Vector3 \<Rightarrow> bool \<Rightarrow> real \<Rightarrow> Vector3" where
  "desiredVelocityG pp q al d =
     (let dirVec0 = (if al then setY (sub pp q) 0 else V3 (sin d) 0 (cos d));
          dirVec = (if lengthSq dirVec0 > 1 / 10000 then normalize dirVec0 else dirVec0)
      in multiplyScalar dirVec (if al then CHASE_SPEED paramsG else WANDER_SPEED paramsG))"

definition moveChick :: "'a Frame_scheme \<Rightarrow> Vector3 \<Rightarrow> (nat \<Rightarrow> real) \<Rightarrow> Chick \<Rightarrow> Chick" where
  "moveChick e pp rnd c =
     (let dist = distanceTo pp (pos c);
          al = (dist < ALERT_RADIUS paramsG);
          t = timer c - delta e;
          tm = (if t \<le> 0 then 1 + rnd 0 * 2 else t);
          d = (if t \<le> 0 then rnd 1 * pi * 2 else dir c);
          v = lerpV (vel c) (desiredVelocityG pp (pos c) al d) (12 / 100);
          q = addScaledVector (pos c) v (delta e)
      in c\<lparr>calert := al,
            cmode := (if al then Chase else Wander),
            timer := tm,
            dir := d,
            vel := v,
            pos := V3 (clamp (vx q) (- AREA_X paramsG) (AREA_X paramsG))
                      (BASE_HEIGHT paramsG +
                       sin (elapsedTime e * HOP_SPEED paramsG + hopOff c) * HOP_HEIGHT paramsG)
                      (clamp (vz q) (AREA_Z_MIN paramsG) (AREA_Z_MAX paramsG))\<rparr>)"

text \<open>The fire rectangle around the player, and otherwise the loop over the centers.\<close>

definition fireHitG :: "FireState \<Rightarrow> Vector3 \<Rightarrow> Vector3 \<Rightarrow> bool" where
  "fireHitG fs pp q =
     (if \<bar>vx q - vx pp\<bar> < FIRE_RECT_RANGE \<and> \<bar>vz q - vz pp\<bar> < FIRE_RECT_RANGE then True
      else \<exists>center \<in> set (fireCenters fs). distanceTo q center < fireRadius fs)"

text \<open>
  The body of \<open>forEach\<close>: the chick after the frame, the callbacks made, and whether the
  player collected it in this frame. The hit on the player has no cooldown here.
\<close>

definition updateChick ::
  "'a Frame_scheme \<Rightarrow> Vector3 \<Rightarrow> (nat \<Rightarrow> real) \<Rightarrow> Chick \<Rightarrow> Chick \<times> Event list \<times> bool" where
  "updateChick e pp rnd c =
     (let (c1, evs) =
            (if cmode c = Drumstick then
               ((if \<not> collected c
                 then c\<lparr>drumTime := drumTime c + delta e,
                        opacity := max 0 (1 - (drumTime c + delta e) / DRUMSTICK_DURATION paramsG)\<rparr>
                 else c)\<lparr>vel := V3 0 0 0\<rparr>, [])
             else
               let hit = (distanceTo pp (pos c) < HIT_RADIUS paramsG);
                   m = moveChick e pp rnd c;
                   b = (if fireActive (playerFire e) \<and> fireHitG (playerFire e) pp (pos m)
                        then m\<lparr>cmode := Drumstick, drumTime := 0, opacity := 1\<rparr> else m)
               in (b, if hit then PlayerHit # (if canVibrate e then [Vibrate] else []) else []));
          collect = (cmode c1 = Drumstick \<and> \<not> collected c1 \<and>
                     distanceTo pp (pos c1) < HIT_RADIUS paramsG)
      in (if collect then c1\<lparr>collected := True\<rparr> else c1,
          evs @ (if collect \<and> canVibrate e then [Vibrate] else []),
          collect))"

definition liveCount :: "Chick list \<Rightarrow> nat" where
  "liveCount cs = length (filter (\<lambda>c. cmode c \<noteq> Drumstick \<or> \<not> collected c) cs)"

text \<open>
  The \<open>useFrame\<close> callback. Without a \<open>PlayerGroup\<close> only the read of the player position
  is skipped: the rest runs on the position read last.
\<close>

definition Chickens_useFrameG :: "FrameG \<Rightarrow> FlockG \<Rightarrow> FlockG \<times> Event list" where
  "Chickens_useFrameG e s =
     (let pp = (case player e of Some p \<Rightarrow> p | None \<Rightarrow> playerPosG s);
          short = (liveCount (chickens s) < CHICKEN_COUNT);
          due = (short \<and> respawnTimerRef s + delta e \<ge> RESPAWN_DELAY);
          rt = (if short \<and> \<not> due then respawnTimerRef s + delta e else 0);
          cs = (if due then chickens s @ [newChick (spawnRandom e)] else chickens s);
          rs = map (\<lambda>(i, c). updateChick e pp (random e i) c) (indexed cs);
          n = length (filter (\<lambda>r. snd (snd r)) rs)
      in (\<lparr>chickens = map fst rs,
           respawnTimerRef = rt,
           heartCountRef = heartCountRef s + n,
           heartHeights = heartHeights s @
             map (\<lambda>j. HEART_BASE_HEIGHT + HEART_GAP * real (heartCountRef s + j)) [0 ..< n],
           playerPosG = pp\<rparr>,
          concat (map (\<lambda>r. fst (snd r)) rs)))"

section \<open>Sessions: sequences of frames\<close>

text \<open>A session runs the callback once per frame, the callbacks of all frames in order.\<close>

fun sessionF :: "Frame list \<Rightarrow> ChickenState Flock \<Rightarrow> ChickenState Flock" where
  "sessionF [] s = s"
| "sessionF (e # es) s = sessionF es (fst (Chickens_useFrameF e s))"

fun sessionR :: "Frame list \<Rightarrow> ChickenStateR Flock \<Rightarrow> ChickenStateR Flock" where
  "sessionR [] s = s"
| "sessionR (e # es) s = sessionR es (fst (Chickens_useFrameR e s))"

fun sessionG :: "FrameG list \<Rightarrow> FlockG \<Rightarrow> FlockG" where
  "sessionG [] s = s"
| "sessionG (e # es) s = sessionG es (fst (Chickens_useFrameG e s))"

fun sessionP :: "PlayerFrame list \<Rightarrow> PlayerWorld \<Rightarrow> PlayerWorld" where
  "sessionP [] w = w"
| "sessionP (f # fs) w = sessionP fs (fst (Player_useFrame f w))"

text \<open>
  The creatures do not interact: what a frame does to the chicken in slot \<open>i\<close> depends on
  that chicken alone. \<open>stepF\<close> and \<open>stepR\<close> are one frame seen from one slot.
\<close>

definition stepF :: "nat \<Rightarrow> Frame \<Rightarrow> ChickenState \<Rightarrow> ChickenState \<times> Event list" where
  "stepF i e c = (case player e of None \<Rightarrow> (c, []) | Some p \<Rightarrow> updateChickenF e p (random e i) c)"

definition stepR :: "nat \<Rightarrow> Frame \<Rightarrow> ChickenStateR \<Rightarrow> ChickenStateR \<times> Event list" where
  "stepR i e c = (case player e of None \<Rightarrow> (c, []) | Some p \<Rightarrow> updateChickenR e p (random e i) c)"

definition stepG :: "nat \<Rightarrow> 'a Frame_scheme \<Rightarrow> Vector3 \<Rightarrow> Chick \<Rightarrow> Chick \<times> Event list" where
  "stepG i e lastPos c =
     (let r = updateChick e (case player e of Some p \<Rightarrow> p | None \<Rightarrow> lastPos) (random e i) c
      in (fst r, fst (snd r)))"

section \<open>Initial states and the notions the properties are stated with\<close>

text \<open>The refs as the components create them; \<open>playerPos\<close> starts as the zero vector.\<close>

definition initialFlockF :: "(nat \<Rightarrow> nat \<Rightarrow> real) \<Rightarrow> ChickenState Flock" where
  "initialFlockF rnd = \<lparr>chickensRef = createInitialChickensF rnd, playerPos = V3 0 0 0\<rparr>"

definition initialFlockR :: "(nat \<Rightarrow> nat \<Rightarrow> real) \<Rightarrow> ChickenStateR Flock" where
  "initialFlockR rnd = \<lparr>chickensRef = createInitialChickensR rnd, playerPos = V3 0 0 0\<rparr>"

definition initialFlockG :: "(nat \<Rightarrow> nat \<Rightarrow> real) \<Rightarrow> FlockG" where
  "initialFlockG rnd =
     \<lparr>chickens = createInitialChicks rnd, respawnTimerRef = 0, heartCountRef = 0,
      heartHeights = [], playerPosG = V3 0 0 0\<rparr>"




text \<open>
  The horizontal scalar product of a velocity \<open>v\<close> with the offset from \<open>q\<close> to the player at
  \<open>p\<close>: positive when \<open>v\<close> points to the player's side.
\<close>

definition towardPlayer :: "Vector3 \<Rightarrow> Vector3 \<Rightarrow> Vector3 \<Rightarrow> real" where
  "towardPlayer p q v = (vx p - vx q) * vx v + (vz p - vz q) * vz v"

definition flatDistance :: "Vector3 \<Rightarrow> Vector3 \<Rightarrow> real" where
  "flatDistance p q = sqrt ((vx p - vx q)\<^sup>2 + (vz p - vz q)\<^sup>2)"

text \<open>The fire test of a frame on a creature, as each of the two files makes it.\<close>

definition fireTestF :: "Frame \<Rightarrow> Vector3 \<Rightarrow> nat \<Rightarrow> ChickenState \<Rightarrow> bool" where
  "fireTestF e p i c =
     (fireActive (playerFire e) \<and>
      fireCenterHitF (playerFire e) (position (moveChicken paramsF e p (random e i) c)))"

definition fireTestR :: "Frame \<Rightarrow> Vector3 \<Rightarrow> nat \<Rightarrow> ChickenStateR \<Rightarrow> bool" where
  "fireTestR e p i c =
     (fireActive (playerFire e) \<and>
      (footFireHit p (position c) \<or>
       fireCenterHitR (fireRadius (playerFire e))
         (position (moveChicken paramsR e p (random e i) c)) (fireCenters (playerFire e))))"















text \<open>
  Counts over the roster of the file with the global respawn timer: the chicks that are
  not captured, the captured ones, and the captured ones the player has collected.
  \<open>liveCount\<close> is the roster without the last.
\<close>

definition freeCount :: "Chick list \<Rightarrow> nat" where
  "freeCount cs = length (filter (\<lambda>c. cmode c \<noteq> Drumstick) cs)"

definition capturedCount :: "Chick list \<Rightarrow> nat" where
  "capturedCount cs = length (filter (\<lambda>c. cmode c = Drumstick) cs)"


section \<open>Concrete frames and states\<close>

text \<open>Inputs on which the theorems below are instantiated.\<close>

definition idleInput :: Input where
  "idleInput = \<lparr>forward = False, backward = False, left = False, right = False, fire = False\<rparr>"

definition restGroup :: Group where
  "restGroup = \<lparr>rotation = V3 0 0 0, groupPosition = V3 0 (27 / 10) 10\<rparr>"

definition frameFiring :: PlayerFrame where
  "frameFiring =
     \<lparr>isLocked = False, input = idleInput\<lparr>fire := True\<rparr>, joystickX = 0, joystickY = 0,
      fireButtonPressed = False, time = 0, tmpForward = V3 0 0 (- 1),
      mouthWorld = V3 0 (65 / 10) (78 / 10)\<rparr>"

definition frameLocked :: PlayerFrame where
  "frameLocked = frameFiring\<lparr>isLocked := True\<rparr>"

definition frameWalking :: PlayerFrame where
  "frameWalking = frameFiring\<lparr>input := idleInput\<lparr>forward := True\<rparr>\<rparr>"

definition onStairs :: PlayerWorld where
  "onStairs = (PlayerWorld0 (Some restGroup))\<lparr>playerPosition := V3 0 0 (- 29 / 2)\<rparr>"

definition halfDraws :: "nat \<Rightarrow> nat \<Rightarrow> real" where
  "halfDraws i n = 1 / 2"

definition quietFrame :: Frame where
  "quietFrame =
     \<lparr>delta = 1 / 60, elapsedTime = 0, player = Some (V3 0 (107 / 10) 0),
      playerFire = playerActionState0, canVibrate = False, random = halfDraws\<rparr>"

definition quietFrameG :: FrameG where
  "quietFrameG =
     \<lparr>delta = 1 / 60, elapsedTime = 0, player = None,
      playerFire = playerActionState0, canVibrate = False, random = halfDraws,
      spawnRandom = halfDraws 0\<rparr>"

definition collectedChick :: Chick where
  "collectedChick = (newChick (halfDraws 0))\<lparr>cmode := Drumstick, opacity := 0, collected := True\<rparr>"

definition flockWithCollected :: FlockG where
  "flockWithCollected =
     \<lparr>chickens = [collectedChick], respawnTimerRef = 0, heartCountRef = 1,
      heartHeights = [HEART_BASE_HEIGHT], playerPosG = V3 0 0 0\<rparr>"

definition flockWandering :: FlockG where
  "flockWandering =
     \<lparr>chickens = [newChick (halfDraws 0)], respawnTimerRef = 0, heartCountRef = 0,
      heartHeights = [], playerPosG = V3 0 0 0\<rparr>"

definition chickenAtFeet :: ChickenState where
  "chickenAtFeet =
     \<lparr>position = V3 0 8 (- 100), velocity = V3 0 0 0, wanderDir = 0, wanderTimer = 2,
      hopOffset = 0, mode = Wander, alert = False, drumstickTimer = 0, drumstickOpacity = 1,
      lastPlayerHit = - 10\<rparr>"

definition chickenAtFeetR :: ChickenStateR where
  "chickenAtFeetR =
     \<lparr>position = V3 0 (85 / 10) (- 75), velocity = V3 0 0 0, wanderDir = 0, wanderTimer = 2,
      hopOffset = 0, mode = Wander, alert = False, drumstickTimer = 0, drumstickOpacity = 1,
      lastPlayerHit = - 10, respawnTimer = 0\<rparr>"

definition fireFrame :: Frame where
  "fireFrame =
     \<lparr>delta = 1 / 60, elapsedTime = 0, player = Some (V3 0 (107 / 10) (- 100)),
      playerFire = updatePlayerFireState [V3 0 (125 / 10) (- 1042 / 10)] FIRE_HIT_RADIUS True,
      canVibrate = False, random = halfDraws\<rparr>"

definition fireFrameR :: Frame where
  "fireFrameR = fireFrame\<lparr>player := Some (V3 0 (112 / 10) (- 75))\<rparr>"

definition chaseFrame :: Frame where
  "chaseFrame =
     \<lparr>delta = 1 / 60, elapsedTime = 0, player = Some (V3 0 8 (- 87)),
      playerFire = playerActionState0, canVibrate = False, random = halfDraws\<rparr>"

definition fleeingChicken :: ChickenState where
  "fleeingChicken = chickenAtFeet\<lparr>velocity := V3 0 0 (- 12 / 10), wanderDir := pi\<rparr>"

definition farFrame :: Frame where
  "farFrame = chaseFrame\<lparr>player := Some (V3 0 8 (- 85))\<rparr>"

definition nearFrame :: Frame where
  "nearFrame = chaseFrame\<lparr>elapsedTime := 1 / 60, player := Some (V3 0 8 (- 8702 / 100))\<rparr>"









section \<open>Properties of the player controller\<close>

lemma stairsY_inside:
  "stairEndZ < z \<Longrightarrow> z < stairStartZ \<Longrightarrow>
   stairsY z = topY * ((stairStartZ - z) / (stairStartZ - stairEndZ))"
  by (simp add: stairsY_def stairStartZ_def stairEndZ_def topY_def lerp_def field_simps)

lemma Player_skip: "groupRef w = None \<Longrightarrow> Player_useFrame f w = (w, [])"
  by (simp add: Player_useFrame_def)

lemma Player_locked:
  "groupRef w = Some g \<Longrightarrow> isLocked f \<Longrightarrow>
   Player_useFrame f w = (w\<lparr>playerActionState := updatePlayerFireState [] FIRE_HIT_RADIUS False\<rparr>, [])"
  by (simp add: Player_useFrame_def)

lemma Player_groupRef:
  "(groupRef (fst (Player_useFrame f w)) = None) = (groupRef w = None)"
  by (cases "groupRef w") (simp_all add: Player_useFrame_def Let_def split: prod.splits)

lemma sessionP_None:
  "groupRef w = None \<Longrightarrow> sessionP fs w = w"
  by (induction fs arbitrary: w) (simp_all add: Player_skip)

lemma sessionP_groupRef:
  "(groupRef (sessionP fs w) = None) = (groupRef w = None)"
  by (induction fs arbitrary: w) (simp_all add: Player_groupRef)

lemma sessionP_PlayerWorld0_None:
  "groupRef (sessionP fs (PlayerWorld0 g)) = None \<Longrightarrow> sessionP fs (PlayerWorld0 g) = PlayerWorld0 None"
proof -
  assume a: "groupRef (sessionP fs (PlayerWorld0 g)) = None"
  from a have "groupRef (PlayerWorld0 g) = None" by (simp add: sessionP_groupRef)
  then have "g = None" by (simp add: PlayerWorld0_def)
  then show ?thesis by (simp add: sessionP_None PlayerWorld0_def)
qed

text \<open>
  Claim C1. In a frame with the locked flag set the player controller does not move the
  player: position, group transform and fire intensity stay as they are, no landmark
  trigger is called, and the fire state is inactive with no target points. With the group
  mounted the frame itself publishes that state, whatever the world was; in a session that
  started with no group the frames are skipped and the fire state is still the initial,
  inactive one.
\<close>

theorem locked_frame_freezes_player:
  assumes "isLocked f"
  shows "(\<forall>(w::PlayerWorld) g. groupRef w = Some g \<longrightarrow>
            Player_useFrame f w =
              (w\<lparr>playerActionState := updatePlayerFireState [] FIRE_HIT_RADIUS False\<rparr>, [])) \<and>
         (let w = sessionP fs (PlayerWorld0 g0); r = Player_useFrame f w
          in playerPosition (fst r) = playerPosition w \<and>
             groupRef (fst r) = groupRef w \<and>
             fireIntensityRef (fst r) = fireIntensityRef w \<and>
             \<not> fireActive (playerActionState (fst r)) \<and>
             fireCenters (playerActionState (fst r)) = [] \<and>
             snd r = [])"
proof (intro conjI allI impI)
  fix w :: PlayerWorld and g assume "groupRef w = Some g"
  with assms show "Player_useFrame f w =
      (w\<lparr>playerActionState := updatePlayerFireState [] FIRE_HIT_RADIUS False\<rparr>, [])"
    by (simp add: Player_locked)
next
  show "let w = sessionP fs (PlayerWorld0 g0); r = Player_useFrame f w
          in playerPosition (fst r) = playerPosition w \<and>
             groupRef (fst r) = groupRef w \<and>
             fireIntensityRef (fst r) = fireIntensityRef w \<and>
             \<not> fireActive (playerActionState (fst r)) \<and>
             fireCenters (playerActionState (fst r)) = [] \<and>
             snd r = []"
  proof (cases "groupRef (sessionP fs (PlayerWorld0 g0))")
    case None
    then have "sessionP fs (PlayerWorld0 g0) = PlayerWorld0 None"
      by (rule sessionP_PlayerWorld0_None)
    then show ?thesis
      by (simp add: Player_skip PlayerWorld0_def playerActionState0_def)
  next
    case (Some g)
    then show ?thesis
      using assms by (simp add: Player_locked updatePlayerFireState_def)
  qed
qed

theorem locked_frame_freezes_player_witness:
  "isLocked frameLocked \<and>
   fireActive (playerActionState (sessionP [frameFiring] (PlayerWorld0 (Some restGroup)))) \<and>
   \<not> fireActive (playerActionState
        (fst (Player_useFrame frameLocked (sessionP [frameFiring] (PlayerWorld0 (Some restGroup))))))"
proof -
  have l: "isLocked frameLocked" by (simp add: frameLocked_def)
  have a: "fireActive (playerActionState (sessionP [frameFiring] (PlayerWorld0 (Some restGroup))))"
    by (simp add: Player_useFrame_def PlayerWorld0_def frameFiring_def idleInput_def moveAxes_def
        updatePlayerFireState_def lerp_def Let_def)
  show ?thesis
    using l a locked_frame_freezes_player [OF l, of "[frameFiring]" "Some restGroup"]
    by (simp add: Let_def)
qed

lemma Player_unlocked_height:
  "groupRef w = Some g \<Longrightarrow> \<not> isLocked f \<Longrightarrow>
   vy (playerPosition (fst (Player_useFrame f w))) =
     stairsY (vz (playerPosition (fst (Player_useFrame f w))))"
  by (simp add: Player_useFrame_def Let_def split: prod.splits)

lemma boundPosition_vy: "boundPosition (q\<lparr>vy := b\<rparr>) = (boundPosition q)\<lparr>vy := b\<rparr>"
  by (simp add: boundPosition_def Let_def)

lemma movePosition_vy: "movePosition (q\<lparr>vy := b\<rparr>) r m = (movePosition q r m)\<lparr>vy := b\<rparr>"
  by (simp add: movePosition_def boundPosition_def addScaledVector_def applyAxisAngleUp_def V3_def Let_def)

lemma Player_unlocked_stateless:
  "groupRef w = Some g \<Longrightarrow> \<not> isLocked f \<Longrightarrow>
   Player_useFrame f (w\<lparr>playerPosition := (playerPosition w)\<lparr>vy := b\<rparr>\<rparr>) = Player_useFrame f w"
  by (simp add: Player_useFrame_def Let_def movePosition_vy split: prod.splits)


text \<open>
  Claim C7. Every unlocked frame recomputes the player's height from the depth \<open>z\<close> alone
  (the height the frame started with has no influence). Strictly inside the stair band the
  height is the linear interpolation between ground level 0 and platform level \<open>topY\<close>;
  outside it is the level of the nearer end of the band; at the midpoint of the band it is
  half-way between the two levels.
\<close>

theorem stairs_height_stateless:
  "(\<forall>(w::PlayerWorld) g b. groupRef w = Some g \<and> \<not> isLocked f \<longrightarrow>
      vy (playerPosition (fst (Player_useFrame f w))) =
        stairsY (vz (playerPosition (fst (Player_useFrame f w)))) \<and>
      Player_useFrame f (w\<lparr>playerPosition := (playerPosition w)\<lparr>vy := b\<rparr>\<rparr>) = Player_useFrame f w) \<and>
   (\<forall>z. stairEndZ < z \<and> z < stairStartZ \<longrightarrow>
      stairsY z = lerp 0 topY ((z - stairStartZ) / (stairEndZ - stairStartZ)) \<and>
      stairsY z = 0 + (topY - 0) * ((stairStartZ - z) / (stairStartZ - stairEndZ))) \<and>
   (\<forall>z. z \<le> stairEndZ \<or> stairStartZ \<le> z \<longrightarrow>
      stairsY z = (if \<bar>z - stairEndZ\<bar> \<le> \<bar>z - stairStartZ\<bar> then topY else 0)) \<and>
   stairsY ((stairStartZ + stairEndZ) / 2) = (0 + topY) / 2"
proof (intro conjI allI impI)
  fix z assume "stairEndZ < z \<and> z < stairStartZ"
  then show "stairsY z = lerp 0 topY ((z - stairStartZ) / (stairEndZ - stairStartZ))"
    by (simp add: stairsY_def)
  from \<open>stairEndZ < z \<and> z < stairStartZ\<close>
  show "stairsY z = 0 + (topY - 0) * ((stairStartZ - z) / (stairStartZ - stairEndZ))"
    by (simp add: stairsY_inside)
next
  fix z :: real assume "z \<le> stairEndZ \<or> stairStartZ \<le> z"
  then show "stairsY z = (if \<bar>z - stairEndZ\<bar> \<le> \<bar>z - stairStartZ\<bar> then topY else 0)"
    by (auto simp add: stairsY_def stairStartZ_def stairEndZ_def)
next
  show "stairsY ((stairStartZ + stairEndZ) / 2) = (0 + topY) / 2"
    by (simp add: stairsY_def stairStartZ_def stairEndZ_def topY_def lerp_def)
qed (simp_all add: Player_unlocked_height Player_unlocked_stateless)

theorem stairs_height_stateless_witness:
  "groupRef onStairs = Some restGroup \<and> \<not> isLocked frameWalking \<and>
   vz (playerPosition (fst (Player_useFrame frameWalking onStairs))) = - 15 \<and>
   vy (playerPosition (fst (Player_useFrame frameWalking onStairs))) = 4"
proof -
  have g: "groupRef onStairs = Some restGroup"
    by (simp add: onStairs_def PlayerWorld0_def)
  have u: "\<not> isLocked frameWalking"
    by (simp add: frameWalking_def frameFiring_def)
  have z: "vz (playerPosition (fst (Player_useFrame frameWalking onStairs))) = - 15"
    by (simp add: Player_useFrame_def onStairs_def PlayerWorld0_def frameWalking_def
        frameFiring_def idleInput_def restGroup_def moveAxes_def movePosition_def
        boundPosition_def addScaledVector_def applyAxisAngleUp_def V3_def speed_def
        rotationSpeed_def Let_def)
  have m: "stairsY (- 15) = 4"
    using stairs_height_stateless [of frameWalking]
    by (simp add: stairStartZ_def stairEndZ_def topY_def)
  have "vy (playerPosition (fst (Player_useFrame frameWalking onStairs))) =
        stairsY (vz (playerPosition (fst (Player_useFrame frameWalking onStairs))))"
    using g u stairs_height_stateless [of frameWalking] by blast
  with g u z m show ?thesis by simp
qed

section \<open>The roster\<close>

lemma length_indexed [simp]: "length (indexed xs) = length xs"
  by (simp add: indexed_def)

lemma nth_indexed [simp]: "i < length xs \<Longrightarrow> indexed xs ! i = (i, xs ! i)"
  by (simp add: indexed_def)

lemma length_useFrameF:
  "length (chickensRef (fst (Chickens_useFrameF e s))) = length (chickensRef s)"
  by (cases "player e") (simp_all add: Chickens_useFrameF_def Let_def)

lemma length_useFrameR:
  "length (chickensRef (fst (Chickens_useFrameR e s))) = length (chickensRef s)"
  by (cases "player e") (simp_all add: Chickens_useFrameR_def Let_def)

lemma length_useFrameG:
  "length (chickens (fst (Chickens_useFrameG e s))) =
     length (chickens s) +
     (if liveCount (chickens s) < CHICKEN_COUNT \<and> respawnTimerRef s + delta e \<ge> RESPAWN_DELAY
      then 1 else 0)"
  by (simp add: Chickens_useFrameG_def Let_def)

lemma length_sessionF: "length (chickensRef (sessionF es s)) = length (chickensRef s)"
  by (induction es arbitrary: s) (simp_all add: length_useFrameF)

lemma length_sessionR: "length (chickensRef (sessionR es s)) = length (chickensRef s)"
  by (induction es arbitrary: s) (simp_all add: length_useFrameR)

lemma length_sessionG: "length (chickens s) \<le> length (chickens (sessionG es s))"
proof (induction es arbitrary: s)
  case Nil
  show ?case by simp
next
  case (Cons e es)
  have "length (chickens s) \<le> length (chickens (fst (Chickens_useFrameG e s)))"
    by (simp add: length_useFrameG)
  also have "\<dots> \<le> length (chickens (sessionG es (fst (Chickens_useFrameG e s))))"
    by (rule Cons.IH)
  finally show ?case by simp
qed

lemma nth_useFrameF:
  "i < length (chickensRef s) \<Longrightarrow>
   chickensRef (fst (Chickens_useFrameF e s)) ! i = fst (stepF i e (chickensRef s ! i))"
  by (cases "player e") (simp_all add: Chickens_useFrameF_def stepF_def Let_def)

lemma nth_useFrameR:
  "i < length (chickensRef s) \<Longrightarrow>
   chickensRef (fst (Chickens_useFrameR e s)) ! i = fst (stepR i e (chickensRef s ! i))"
  by (cases "player e") (simp_all add: Chickens_useFrameR_def stepR_def Let_def)

lemma nth_useFrameG:
  "i < length (chickens s) \<Longrightarrow>
   chickens (fst (Chickens_useFrameG e s)) ! i = fst (stepG i e (playerPosG s) (chickens s ! i))"
  by (simp add: Chickens_useFrameG_def stepG_def Let_def nth_append)

lemma updateChick_collected:
  "cmode c = Drumstick \<Longrightarrow> collected c \<Longrightarrow>
   updateChick e pp rnd c = (c\<lparr>vel := V3 0 0 0\<rparr>, [], False)"
  by (simp add: updateChick_def)

lemma length_createF: "length (createInitialChickensF rnd) = CHICKEN_COUNT"
  by (simp add: createInitialChickensF_def)

lemma length_createR: "length (createInitialChickensR rnd) = CHICKEN_COUNT"
  by (simp add: createInitialChickensR_def)

lemma length_createG: "length (createInitialChicks rnd) = CHICKEN_COUNT"
  by (simp add: createInitialChicks_def)

text \<open>
  Claim C10. No frame removes an element of the roster. With the fixed rosters every frame
  keeps the length, so a session that starts from the initial roster has \<open>CHICKEN_COUNT\<close>
  chickens throughout. With the global respawn timer a frame keeps the length or appends
  one chick, every chick keeps its index, and a collected drumstick stays in the array as an
  inert record: a frame only sets its velocity to zero.
\<close>

theorem roster_never_shrinks:
  "length (chickensRef (fst (Chickens_useFrameF e sF))) = length (chickensRef sF) \<and>
   length (chickensRef (fst (Chickens_useFrameR e sR))) = length (chickensRef sR) \<and>
   length (chickensRef (sessionF es (initialFlockF rnd))) = CHICKEN_COUNT \<and>
   length (chickensRef (sessionR es (initialFlockR rnd))) = CHICKEN_COUNT \<and>
   length (chickens sG) \<le> length (chickens (fst (Chickens_useFrameG g sG))) \<and>
   length (chickens sG) \<le> length (chickens (sessionG gs sG)) \<and>
   CHICKEN_COUNT \<le> length (chickens (sessionG gs (initialFlockG rnd))) \<and>
   (\<forall>i < length (chickens sG).
      chickens (fst (Chickens_useFrameG g sG)) ! i =
        fst (stepG i g (playerPosG sG) (chickens sG ! i))) \<and>
   (\<forall>c pp r. cmode c = Drumstick \<and> collected c \<longrightarrow>
      fst (updateChick g pp r c) = c\<lparr>vel := V3 0 0 0\<rparr>)"
proof -
  have "CHICKEN_COUNT \<le> length (chickens (sessionG gs (initialFlockG rnd)))"
    using length_sessionG [of "initialFlockG rnd" gs]
    by (simp add: initialFlockG_def length_createG)
  then show ?thesis
    by (simp add: length_useFrameF length_useFrameR length_sessionF length_sessionR
        length_sessionG length_useFrameG nth_useFrameG updateChick_collected
        initialFlockF_def initialFlockR_def length_createF length_createR)
qed

theorem roster_never_shrinks_witness:
  "0 < length (chickens flockWithCollected) \<and>
   cmode collectedChick = Drumstick \<and> collected collectedChick \<and>
   length (chickens (fst (Chickens_useFrameG quietFrameG flockWithCollected))) = 1 \<and>
   chickens (fst (Chickens_useFrameG quietFrameG flockWithCollected)) ! 0 =
     collectedChick\<lparr>vel := V3 0 0 0\<rparr>"
proof -
  have l: "0 < length (chickens flockWithCollected)"
    by (simp add: flockWithCollected_def)
  have c: "cmode collectedChick = Drumstick \<and> collected collectedChick"
    by (simp add: collectedChick_def)
  have n: "length (chickens (fst (Chickens_useFrameG quietFrameG flockWithCollected))) = 1"
    by (simp add: length_useFrameG flockWithCollected_def liveCount_def collectedChick_def
        CHICKEN_COUNT_def quietFrameG_def RESPAWN_DELAY_def)
  have "chickens (fst (Chickens_useFrameG quietFrameG flockWithCollected)) ! 0 =
      fst (stepG 0 quietFrameG (playerPosG flockWithCollected) (chickens flockWithCollected ! 0))"
    using l roster_never_shrinks [of _ _ _ _ _ flockWithCollected quietFrameG] by blast
  moreover have "chickens flockWithCollected ! 0 = collectedChick"
    by (simp add: flockWithCollected_def)
  moreover have "\<And>pp r. fst (updateChick quietFrameG pp r collectedChick) =
      collectedChick\<lparr>vel := V3 0 0 0\<rparr>"
    using c roster_never_shrinks [of _ _ _ _ _ flockWithCollected quietFrameG] by blast
  ultimately show ?thesis
    using l c n by (simp add: stepG_def Let_def)
qed

lemma skipF: "player e = None \<Longrightarrow> Chickens_useFrameF e s = (s, [])"
  by (simp add: Chickens_useFrameF_def)

lemma skipR: "player e = None \<Longrightarrow> Chickens_useFrameR e s = (s, [])"
  by (simp add: Chickens_useFrameR_def)

lemma moveChick_player: "moveChick (e\<lparr>player := x\<rparr>) pp rnd c = moveChick e pp rnd c"
  by (simp add: moveChick_def Let_def)

lemma updateChick_player: "updateChick (e\<lparr>player := x\<rparr>) pp rnd c = updateChick e pp rnd c"
  by (simp add: updateChick_def moveChick_player Let_def)

lemma no_skipG:
  "player e = None \<Longrightarrow>
   Chickens_useFrameG e s = Chickens_useFrameG (e\<lparr>player := Some (playerPosG s)\<rparr>) s"
  by (simp add: Chickens_useFrameG_def updateChick_player Let_def)

section \<open>The invariant of the creatures\<close>


lemma moveChicken_mode:
  "mode (moveChicken k e p rnd c) =
     (if distanceTo (position c) p < ALERT_RADIUS k then Chase else Wander)"
  by (simp add: moveChicken_def Let_def)

lemma moveChicken_alert:
  "alert (moveChicken k e p rnd c) = (distanceTo (position c) p < ALERT_RADIUS k)"
  by (simp add: moveChicken_def Let_def)

lemma moveChicken_kept:
  "lastPlayerHit (moveChicken k e p rnd c) = lastPlayerHit c"
  "drumstickTimer (moveChicken k e p rnd c) = drumstickTimer c"
  "drumstickOpacity (moveChicken k e p rnd c) = drumstickOpacity c"
  "hopOffset (moveChicken k e p rnd c) = hopOffset c"
  by (simp_all add: moveChicken_def Let_def)


lemma moveChicken_position:
  "position (moveChicken k e p rnd c) =
     V3 (clamp (vx (addScaledVector (position c) (velocity (moveChicken k e p rnd c)) (delta e)))
           (- AREA_X k) (AREA_X k))
        (BASE_HEIGHT k + sin (elapsedTime e * HOP_SPEED k + hopOffset c) * HOP_HEIGHT k)
        (clamp (vz (addScaledVector (position c) (velocity (moveChicken k e p rnd c)) (delta e)))
           (AREA_Z_MIN k) (AREA_Z_MAX k))"
  by (simp add: moveChicken_def Let_def split del: if_split)























section \<open>Frames without a player\<close>

lemma moveChick_timer:
  "timer (moveChick e pp rnd c) =
     (if timer c - delta e \<le> 0 then 1 + rnd 0 * 2 else timer c - delta e)"
  by (simp add: moveChick_def Let_def)

lemma moveChick_cmode:
  "cmode (moveChick e pp rnd c) = (if distanceTo pp (pos c) < ALERT_RADIUS paramsG then Chase else Wander)"
  by (simp add: moveChick_def Let_def)

text \<open>
  Claim C9, as amended. When the scene has no \<open>PlayerGroup\<close>, the frame of the two
  fixed-roster files changes nothing and makes no callback, and so does the frame of the
  player controller when its group ref is empty. The file with the global respawn timer
  skips only the read of the player position: its frame is the frame it would run with the
  player at the position read last.
\<close>

theorem missing_player_skips_frame:
  "(player e = None \<longrightarrow> Chickens_useFrameF e sF = (sF, [])) \<and>
   (player e = None \<longrightarrow> Chickens_useFrameR e sR = (sR, [])) \<and>
   (groupRef w = None \<longrightarrow> Player_useFrame f w = (w, [])) \<and>
   (player g = None \<longrightarrow>
      Chickens_useFrameG g sG = Chickens_useFrameG (g\<lparr>player := Some (playerPosG sG)\<rparr>) sG)"
  by (simp add: skipF skipR Player_skip no_skipG)

theorem missing_player_skips_frame_witness:
  "player quietFrameG = None \<and>
   Chickens_useFrameG quietFrameG flockWandering =
     Chickens_useFrameG (quietFrameG\<lparr>player := Some (V3 0 0 0)\<rparr>) flockWandering \<and>
   Chickens_useFrameF (quietFrame\<lparr>player := None\<rparr>) (initialFlockF halfDraws) =
     (initialFlockF halfDraws, [])"
proof -
  have n: "player quietFrameG = None" by (simp add: quietFrameG_def)
  have m: "player (quietFrame\<lparr>player := None\<rparr>) = None" by simp
  show ?thesis
    using n m missing_player_skips_frame [of "quietFrame\<lparr>player := None\<rparr>" "initialFlockF halfDraws"
        _ _ _ quietFrameG flockWandering]
    by (simp add: flockWandering_def)
qed

text \<open>
  Claim C9 as stated fails in the file with the global respawn timer: with no
  \<open>PlayerGroup\<close> in the scene the frame still counts the wander timer of a chick down.
\<close>

theorem missing_player_grow_counterexample:
  "player quietFrameG = None \<and>
   timer (chickens flockWandering ! 0) = 7 / 4 \<and>
   timer (chickens (fst (Chickens_useFrameG quietFrameG flockWandering)) ! 0) = 7 / 4 - 1 / 60"
proof -
  have "chickens (fst (Chickens_useFrameG quietFrameG flockWandering)) ! 0 =
      fst (stepG 0 quietFrameG (playerPosG flockWandering) (chickens flockWandering ! 0))"
    by (rule nth_useFrameG) (simp add: flockWandering_def)
  then show ?thesis
    by (simp add: stepG_def updateChick_def Let_def flockWandering_def quietFrameG_def
        playerActionState0_def moveChick_timer moveChick_cmode newChick_def halfDraws_def
        split: prod.splits)
qed

section \<open>Fire hits\<close>

lemma sqrt_less_iff_sq: "0 < r \<Longrightarrow> (sqrt x < r) = (x < r\<^sup>2)"
proof -
  assume r: "0 < r"
  have "(sqrt x < r) = (sqrt x < sqrt (r\<^sup>2))" using r by simp
  also have "\<dots> = (x < r\<^sup>2)" by (rule real_sqrt_less_iff)
  finally show ?thesis .
qed

lemma distanceTo_less:
  "0 < r \<Longrightarrow>
   (distanceTo a b < r) = ((vx a - vx b)\<^sup>2 + (vy a - vy b)\<^sup>2 + (vz a - vz b)\<^sup>2 < r\<^sup>2)"
  by (simp add: distanceTo_def sqrt_less_iff_sq)


lemma distanceTo_ge:
  "0 < r \<Longrightarrow> r\<^sup>2 \<le> (vx a - vx b)\<^sup>2 + (vy a - vy b)\<^sup>2 + (vz a - vz b)\<^sup>2 \<Longrightarrow>
   r \<le> distanceTo a b"
  using distanceTo_less [of r a b] by simp

lemma fireCenterHitR_iff:
  "fireCenterHitR r q cs =
     (\<exists>center \<in> set cs. \<bar>vy center - vy q\<bar> \<le> FIRE_VERTICAL_TOLERANCE \<and>
        sqrt ((vx center - vx q)\<^sup>2 + (vz center - vz q)\<^sup>2) < r + FIRE_PADDING)"
  by (induction cs) auto

lemma stepR_playerFire_captured:
  "mode c = Drumstick \<or> mode c = Respawn \<Longrightarrow> stepR i (e\<lparr>playerFire := fs\<rparr>) c = stepR i e c"
  by (cases "player e")
     (auto simp add: stepR_def updateChickenR_def drumstickR_def fade_def Let_def)

lemma stepF_playerFire_captured:
  "mode c = Drumstick \<Longrightarrow> stepF i (e\<lparr>playerFire := fs\<rparr>) c = stepF i e c"
  by (cases "player e") (auto simp add: stepF_def updateChickenF_def fade_def Let_def)

lemma captured_fields:
  "mode (capture k c) = Drumstick \<and> drumstickTimer (capture k c) = 0 \<and>
   drumstickOpacity (capture k c) = 1 \<and> velocity (capture k c) = V3 0 0 0"
  by (simp add: capture_def)

text \<open>
  Claim C2, as amended. In a frame whose update runs (the scene has a \<open>PlayerGroup\<close>), with
  the fire state active, for a creature that is neither captured nor respawning:
  \<^item> in the file with the respawn mode, if the position the frame starts with is in the
    foot box around the player, or the position after the frame's move is within the
    vertical tolerance and within \<open>fireRadius + FIRE_PADDING\<close> (flat distance) of some fire
    target point, the creature ends the frame captured: mode Drumstick, timer 0, opacity 1,
    velocity zero;
  \<^item> in \<open>Chickens.tsx\<close> the test is the distance in space between the position after the
    move and some target point, below \<open>fireRadius + FIRE_PADDING\<close>; there is no foot box and
    no vertical tolerance.
  A creature already captured or respawning is never tested: its frame does not depend on
  the fire state.
\<close>

theorem fire_hit_captures:
  "(\<forall>p. player e = Some p \<and> mode c \<noteq> Drumstick \<and> mode c \<noteq> Respawn \<and>
        fireActive (playerFire e) \<and>
        (footFireHit p (position c) \<or>
         (\<exists>center \<in> set (fireCenters (playerFire e)).
            \<bar>vy center - vy (position (moveChicken paramsR e p (random e i) c))\<bar>
              \<le> FIRE_VERTICAL_TOLERANCE \<and>
            flatDistance center (position (moveChicken paramsR e p (random e i) c))
              < fireRadius (playerFire e) + FIRE_PADDING)) \<longrightarrow>
        mode (fst (stepR i e c)) = Drumstick \<and>
        drumstickTimer (fst (stepR i e c)) = 0 \<and>
        drumstickOpacity (fst (stepR i e c)) = 1 \<and>
        velocity (fst (stepR i e c)) = V3 0 0 0) \<and>
   (mode c = Drumstick \<or> mode c = Respawn \<longrightarrow> stepR i (e\<lparr>playerFire := fs\<rparr>) c = stepR i e c) \<and>
   (\<forall>p. player e = Some p \<and> mode d \<noteq> Drumstick \<and> fireActive (playerFire e) \<and>
        (\<exists>center \<in> set (fireCenters (playerFire e)).
            distanceTo center (position (moveChicken paramsF e p (random e i) d))
              < fireRadius (playerFire e) + FIRE_PADDING) \<longrightarrow>
        mode (fst (stepF i e d)) = Drumstick \<and>
        drumstickTimer (fst (stepF i e d)) = 0 \<and>
        drumstickOpacity (fst (stepF i e d)) = 1 \<and>
        velocity (fst (stepF i e d)) = V3 0 0 0) \<and>
   (mode d = Drumstick \<longrightarrow> stepF i (e\<lparr>playerFire := fs\<rparr>) d = stepF i e d)"
proof (intro conjI allI impI)
  fix p
  assume a: "player e = Some p \<and> mode c \<noteq> Drumstick \<and> mode c \<noteq> Respawn \<and>
        fireActive (playerFire e) \<and>
        (footFireHit p (position c) \<or>
         (\<exists>center \<in> set (fireCenters (playerFire e)).
            \<bar>vy center - vy (position (moveChicken paramsR e p (random e i) c))\<bar>
              \<le> FIRE_VERTICAL_TOLERANCE \<and>
            flatDistance center (position (moveChicken paramsR e p (random e i) c))
              < fireRadius (playerFire e) + FIRE_PADDING))"
  have "\<exists>x. fst (stepR i e c) = capture paramsR x"
  proof (cases "footFireHit p (position c)")
    case True
    with a show ?thesis by (auto simp add: stepR_def updateChickenR_def)
  next
    case False
    with a have "fireCenterHitR (fireRadius (playerFire e))
        (position (moveChicken paramsR e p (random e i) c)) (fireCenters (playerFire e))"
      by (simp add: fireCenterHitR_iff flatDistance_def)
    with a False show ?thesis
      by (auto simp add: stepR_def updateChickenR_def Let_def)
  qed
  then obtain x where x: "fst (stepR i e c) = capture paramsR x" by blast
  show "mode (fst (stepR i e c)) = Drumstick" "drumstickTimer (fst (stepR i e c)) = 0"
    "drumstickOpacity (fst (stepR i e c)) = 1" "velocity (fst (stepR i e c)) = V3 0 0 0"
    by (simp_all add: x captured_fields)
next
  fix p
  assume a: "player e = Some p \<and> mode d \<noteq> Drumstick \<and> fireActive (playerFire e) \<and>
        (\<exists>center \<in> set (fireCenters (playerFire e)).
            distanceTo center (position (moveChicken paramsF e p (random e i) d))
              < fireRadius (playerFire e) + FIRE_PADDING)"
  then have "\<exists>x. fst (stepF i e d) = capture paramsF x"
    by (auto simp add: stepF_def updateChickenF_def fireCenterHitF_def Let_def)
  then obtain x where x: "fst (stepF i e d) = capture paramsF x" by blast
  show "mode (fst (stepF i e d)) = Drumstick" "drumstickTimer (fst (stepF i e d)) = 0"
    "drumstickOpacity (fst (stepF i e d)) = 1" "velocity (fst (stepF i e d)) = V3 0 0 0"
    by (simp_all add: x captured_fields)
qed (simp_all add: stepR_playerFire_captured stepF_playerFire_captured)

theorem fire_hit_captures_witness:
  "player fireFrameR = Some (V3 0 (112 / 10) (- 75)) \<and> mode chickenAtFeetR = Wander \<and>
   fireActive (playerFire fireFrameR) \<and>
   footFireHit (V3 0 (112 / 10) (- 75)) (position chickenAtFeetR) \<and>
   mode (fst (stepR 0 fireFrameR chickenAtFeetR)) = Drumstick \<and>
   velocity (fst (stepR 0 fireFrameR chickenAtFeetR)) = V3 0 0 0"
proof -
  have a: "player fireFrameR = Some (V3 0 (112 / 10) (- 75))"
    "mode chickenAtFeetR = Wander" "fireActive (playerFire fireFrameR)"
    by (simp_all add: fireFrameR_def fireFrame_def chickenAtFeetR_def updatePlayerFireState_def)
  have b: "footFireHit (V3 0 (112 / 10) (- 75)) (position chickenAtFeetR)"
    by (simp add: footFireHit_def chickenAtFeetR_def V3_def FOOT_FIRE_HALF_X_def
        FOOT_FIRE_HALF_Z_def FOOT_FIRE_HEIGHT_def)
  show ?thesis
    using a b fire_hit_captures [of fireFrameR chickenAtFeetR 0]
    by simp
qed

text \<open>
  Claim C2 as stated fails in \<open>Chickens.tsx\<close>: a wandering chicken inside the foot box
  around the player, with the fire active, is not captured when no target point is near.
\<close>

theorem fire_box_fixed_roster_counterexample:
  "player fireFrame = Some (V3 0 (107 / 10) (- 100)) \<and> mode chickenAtFeet = Wander \<and>
   fireActive (playerFire fireFrame) \<and>
   footFireHit (V3 0 (107 / 10) (- 100)) (position chickenAtFeet) \<and>
   mode (fst (stepF 0 fireFrame chickenAtFeet)) = Chase"
proof -
  have a: "player fireFrame = Some (V3 0 (107 / 10) (- 100))"
    "mode chickenAtFeet = Wander" "fireActive (playerFire fireFrame)"
    by (simp_all add: fireFrame_def chickenAtFeet_def updatePlayerFireState_def)
  have b: "footFireHit (V3 0 (107 / 10) (- 100)) (position chickenAtFeet)"
    by (simp add: footFireHit_def chickenAtFeet_def V3_def FOOT_FIRE_HALF_X_def
        FOOT_FIRE_HALF_Z_def FOOT_FIRE_HEIGHT_def)
  have v: "desiredVelocity paramsF (V3 0 (107 / 10) (- 100)) (V3 0 8 (- 100)) True w = V3 0 0 0" for w
    by (simp add: desiredVelocity_def sub_def V3_def lengthSq_def multiplyScalar_def Let_def)
  have d: "distanceTo (V3 0 8 (- 100)) (V3 0 (107 / 10) (- 100)) < ALERT_RADIUS paramsF"
    by (simp add: distanceTo_less paramsF_def V3_def power2_eq_square)
  have m: "moveChicken paramsF fireFrame (V3 0 (107 / 10) (- 100)) (halfDraws 0) chickenAtFeet =
      chickenAtFeet\<lparr>alert := True, mode := Chase, wanderTimer := 2 - 1 / 60\<rparr>"
    using d
    apply (simp add: moveChicken_def Let_def chickenAtFeet_def fireFrame_def v)
    apply (simp add: lerpV_def addScaledVector_def clamp_def paramsF_def V3_def)
    done
  have "26 / 10 \<le> distanceTo (V3 0 (125 / 10) (- 1042 / 10)) (V3 0 8 (- 100))"
    by (rule distanceTo_ge) (simp_all add: V3_def power2_eq_square)
  then have f: "\<not> fireCenterHitF (playerFire fireFrame) (V3 0 8 (- 100))"
    by (simp add: fireCenterHitF_def fireFrame_def updatePlayerFireState_def FIRE_HIT_RADIUS_def
        FIRE_PADDING_def V3_def power2_eq_square)
  have q: "position chickenAtFeet = V3 0 8 (- 100)" "random fireFrame 0 = halfDraws 0"
    by (simp_all add: chickenAtFeet_def fireFrame_def)
  have "mode (fst (stepF 0 fireFrame chickenAtFeet)) = Chase"
    using f by (simp add: stepF_def updateChickenF_def Let_def a m q)
  with a b show ?thesis by simp
qed

section \<open>Alert, chase and the velocity\<close>

lemma moveChicken_velocity:
  "velocity (moveChicken k e p rnd c) =
     lerpV (velocity c)
       (desiredVelocity k p (position c) (distanceTo (position c) p < ALERT_RADIUS k)
          (wanderDir (moveChicken k e p rnd c)))
       (12 / 100)"
  by (simp add: moveChicken_def Let_def)

lemma desiredVelocity_wander:
  "desiredVelocity k p q False wd = V3 (sin wd * WANDER_SPEED k) 0 (cos wd * WANDER_SPEED k)"
proof -
  have "lengthSq (V3 (sin wd) 0 (cos wd)) = 1"
    by (simp add: lengthSq_def V3_def)
  then show ?thesis
    by (simp add: desiredVelocity_def Let_def normalize_def multiplyScalar_def V3_def lengthSq_def)
qed

lemma flat_lengthSq:
  "lengthSq ((sub p q)\<lparr>vy := 0\<rparr>) = (flatDistance p q)\<^sup>2"
  by (simp add: lengthSq_def sub_def V3_def flatDistance_def)

lemma desiredVelocity_chase:
  assumes "flatDistance p q > 1 / 100"
  shows "desiredVelocity k p q True wd =
     V3 ((vx p - vx q) / flatDistance p q * CHASE_SPEED k) 0
        ((vz p - vz q) / flatDistance p q * CHASE_SPEED k)"
proof -
  have "(1 / 100)\<^sup>2 < (flatDistance p q)\<^sup>2"
    using assms by (intro power_strict_mono) simp_all
  then have l: "lengthSq ((sub p q)\<lparr>vy := 0\<rparr>) > 1 / 10000"
    by (simp add: flat_lengthSq power2_eq_square)
  have s: "sqrt (lengthSq ((sub p q)\<lparr>vy := 0\<rparr>)) = flatDistance p q"
    by (simp add: lengthSq_def sub_def V3_def flatDistance_def)
  have n: "flatDistance p q \<noteq> 0" using assms by simp
  show ?thesis
    using l n
    by (simp add: desiredVelocity_def Let_def normalize_def s multiplyScalar_def)
       (simp add: sub_def V3_def)
qed

lemma towardPlayer_lerpV:
  "towardPlayer p q (lerpV v w a) = (1 - a) * towardPlayer p q v + a * towardPlayer p q w"
  by (simp add: towardPlayer_def lerpV_def V3_def algebra_simps)

lemma towardPlayer_chase:
  assumes "flatDistance p q > 1 / 100"
  shows "towardPlayer p q (desiredVelocity k p q True wd) = CHASE_SPEED k * flatDistance p q"
proof -
  define L where "L = flatDistance p q"
  have L: "L > 0" using assms by (simp add: L_def)
  have sq: "(vx p - vx q)\<^sup>2 + (vz p - vz q)\<^sup>2 = L * L"
    unfolding L_def flatDistance_def by (simp add: power2_eq_square [symmetric])
  have "towardPlayer p q (desiredVelocity k p q True wd) =
      ((vx p - vx q)\<^sup>2 + (vz p - vz q)\<^sup>2) / L * CHASE_SPEED k"
    using L by (simp add: desiredVelocity_chase [OF assms] towardPlayer_def V3_def L_def
        power2_eq_square field_simps)
  also have "\<dots> = CHASE_SPEED k * L"
    using L by (simp add: sq)
  finally show ?thesis by (simp add: L_def)
qed

lemma toward_recurrence:
  assumes "flatDistance p q > 1 / 100"
  shows "towardPlayer p q (lerpV v (desiredVelocity k p q True wd) a) =
     (1 - a) * towardPlayer p q v + a * (CHASE_SPEED k * flatDistance p q)"
  by (simp add: towardPlayer_lerpV towardPlayer_chase [OF assms])

lemma cauchy2: "((a::real) * c + b * d)\<^sup>2 \<le> (a\<^sup>2 + b\<^sup>2) * (c\<^sup>2 + d\<^sup>2)"
proof -
  have "(a\<^sup>2 + b\<^sup>2) * (c\<^sup>2 + d\<^sup>2) - (a * c + b * d)\<^sup>2 = (a * d - b * c)\<^sup>2"
    by (simp add: power2_eq_square algebra_simps)
  moreover have "0 \<le> (a * d - b * c)\<^sup>2" by simp
  ultimately show ?thesis by linarith
qed

lemma toward_positive:
  assumes L: "flatDistance p q > 1 / 100"
    and slow: "(vx v)\<^sup>2 + (vz v)\<^sup>2 < (3 / 10)\<^sup>2"
  shows "88 / 100 * towardPlayer p q v + 12 / 100 * (22 / 10) * flatDistance p q > 0"
proof -
  define L where "L = flatDistance p q"
  define t where "t = towardPlayer p q v"
  have Lpos: "L > 0" using assms(1) by (simp add: L_def)
  have LL: "(vx p - vx q)\<^sup>2 + (vz p - vz q)\<^sup>2 = L\<^sup>2"
    unfolding L_def flatDistance_def by simp
  have "t\<^sup>2 \<le> ((vx p - vx q)\<^sup>2 + (vz p - vz q)\<^sup>2) * ((vx v)\<^sup>2 + (vz v)\<^sup>2)"
    unfolding t_def towardPlayer_def by (rule cauchy2)
  also have "\<dots> = L\<^sup>2 * ((vx v)\<^sup>2 + (vz v)\<^sup>2)" by (simp add: LL)
  also have "\<dots> < L\<^sup>2 * (3 / 10)\<^sup>2"
    using Lpos slow by (intro mult_strict_left_mono) simp_all
  also have "\<dots> = (3 / 10 * L)\<^sup>2" by (simp add: power2_eq_square)
  finally have "t\<^sup>2 < (3 / 10 * L)\<^sup>2" .
  then have "(- t)\<^sup>2 < (3 / 10 * L)\<^sup>2" by simp
  moreover have "0 \<le> 3 / 10 * L" using Lpos by simp
  ultimately have "- t < 3 / 10 * L" by (rule power2_less_imp_less)
  then have "88 / 100 * t + 12 / 100 * (22 / 10) * L > 0" by linarith
  then show ?thesis unfolding t_def L_def .
qed

lemma stepF_moved:
  "player e = Some p \<Longrightarrow> mode c \<noteq> Drumstick \<Longrightarrow> \<not> fireTestF e p i c \<Longrightarrow>
   \<exists>t. fst (stepF i e c) = (moveChicken paramsF e p (random e i) c)\<lparr>lastPlayerHit := t\<rparr>"
  by (cases "hitsPlayer paramsF e p c")
     (auto simp add: stepF_def updateChickenF_def fireTestF_def Let_def moveChicken_kept
        intro: exI [of _ "elapsedTime e"] exI [of _ "lastPlayerHit c"])

lemma stepR_moved:
  "player e = Some p \<Longrightarrow> mode c \<noteq> Drumstick \<Longrightarrow> mode c \<noteq> Respawn \<Longrightarrow>
   \<not> fireTestR e p i c \<Longrightarrow>
   \<exists>t. fst (stepR i e c) = (moveChicken paramsR e p (random e i) c)\<lparr>lastPlayerHit := t\<rparr>"
  by (cases "hitsPlayer paramsR e p c")
     (auto simp add: stepR_def updateChickenR_def fireTestR_def Let_def moveChicken_kept
        intro: exI [of _ "elapsedTime e"] exI [of _ "lastPlayerHit c"])

lemma moved_alert_mode:
  assumes "c' = (moveChicken k e p rnd c)\<lparr>lastPlayerHit := t\<rparr>"
  shows "alert c' = (distanceTo (position c) p < ALERT_RADIUS k)"
    and "mode c' = (if distanceTo (position c) p < ALERT_RADIUS k then Chase else Wander)"
    and "velocity c' =
      lerpV (velocity c)
        (desiredVelocity k p (position c) (distanceTo (position c) p < ALERT_RADIUS k)
           (wanderDir c'))
        (12 / 100)"
  using assms moveChicken_velocity [of k e p rnd c]
  by (simp_all add: moveChicken_alert moveChicken_mode)

lemma moved_toward:
  assumes "c' = (moveChicken k e p rnd c)\<lparr>lastPlayerHit := t\<rparr>"
    and "distanceTo (position c) p < ALERT_RADIUS k"
    and "flatDistance p (position c) > 1 / 100"
  shows "towardPlayer p (position c) (velocity c') =
      88 / 100 * towardPlayer p (position c) (velocity c) +
      12 / 100 * CHASE_SPEED k * flatDistance p (position c)"
proof -
  have "velocity c' =
      lerpV (velocity c) (desiredVelocity k p (position c) True (wanderDir c')) (12 / 100)"
    using assms(1,2) moveChicken_velocity [of k e p rnd c] by simp
  then have "towardPlayer p (position c) (velocity c') =
      (1 - 12 / 100) * towardPlayer p (position c) (velocity c) +
      12 / 100 * (CHASE_SPEED k * flatDistance p (position c))"
    by (simp only: toward_recurrence [OF assms(3)])
  then show ?thesis by simp
qed

lemma moved_from_rest:
  assumes "c' = (moveChicken k e p rnd c)\<lparr>lastPlayerHit := t\<rparr>"
    and "\<not> distanceTo (position c) p < ALERT_RADIUS k"
    and "velocity c = V3 0 0 0" and "WANDER_SPEED k = 12 / 10"
  shows "(vx (velocity c'))\<^sup>2 + (vz (velocity c'))\<^sup>2 < (3 / 10)\<^sup>2"
proof -
  define w where "w = wanderDir c'"
  define a :: real where "a = 144 / 1000"
  have v: "velocity c' = V3 (sin w * a) 0 (cos w * a)"
    using assms moveChicken_velocity [of k e p rnd c]
    by (simp add: desiredVelocity_wander lerpV_def V3_def w_def a_def)
  have "(sin w * a)\<^sup>2 + (cos w * a)\<^sup>2 = ((sin w)\<^sup>2 + (cos w)\<^sup>2) * a\<^sup>2"
    by (simp only: power_mult_distrib distrib_right)
  then have "(vx (velocity c'))\<^sup>2 + (vz (velocity c'))\<^sup>2 = a\<^sup>2"
    by (simp add: v V3_def)
  also have "\<dots> < (3 / 10)\<^sup>2" by (simp add: a_def power2_eq_square)
  finally show ?thesis .
qed

lemma distanceTo_eq:
  "0 \<le> r \<Longrightarrow> (vx a - vx b)\<^sup>2 + (vy a - vy b)\<^sup>2 + (vz a - vz b)\<^sup>2 = r\<^sup>2 \<Longrightarrow> distanceTo a b = r"
  by (simp add: distanceTo_def)

lemma flatDistance_eq:
  "0 \<le> r \<Longrightarrow> (vx p - vx q)\<^sup>2 + (vz p - vz q)\<^sup>2 = r\<^sup>2 \<Longrightarrow> flatDistance p q = r"
  by (simp add: flatDistance_def)

lemma moved_positive:
  assumes "c' = (moveChicken k e p rnd c)\<lparr>lastPlayerHit := t\<rparr>"
    and "distanceTo (position c) p < ALERT_RADIUS k"
    and "flatDistance p (position c) > 1 / 100"
    and "(vx (velocity c))\<^sup>2 + (vz (velocity c))\<^sup>2 < (3 / 10)\<^sup>2"
    and "CHASE_SPEED k = 22 / 10"
  shows "towardPlayer p (position c) (velocity c') > 0"
proof -
  have "towardPlayer p (position c) (velocity c') =
      88 / 100 * towardPlayer p (position c) (velocity c) +
      12 / 100 * CHASE_SPEED k * flatDistance p (position c)"
    by (rule moved_toward [OF assms(1,2,3)])
  moreover have "88 / 100 * towardPlayer p (position c) (velocity c) +
      12 / 100 * (22 / 10) * flatDistance p (position c) > 0"
    by (rule toward_positive [OF assms(3,4)])
  ultimately show ?thesis by (simp add: assms(5))
qed

lemma scenario_moved:
  assumes c1: "c1 = (moveChicken k e1 p1 r1 c)\<lparr>lastPlayerHit := t1\<rparr>"
    and c2: "c2 = (moveChicken k e2 p2 r2 c1)\<lparr>lastPlayerHit := t2\<rparr>"
    and rest: "velocity c = V3 0 0 0"
    and far: "distanceTo (position c) p1 = ALERT_RADIUS k + 1"
    and near: "distanceTo (position c1) p2 = ALERT_RADIUS k - 1"
    and flat: "flatDistance p2 (position c1) > 1 / 100"
    and k: "WANDER_SPEED k = 12 / 10" "CHASE_SPEED k = 22 / 10"
  shows "mode c1 = Wander \<and> mode c2 = Chase \<and> towardPlayer p2 (position c1) (velocity c2) > 0"
proof -
  have f: "\<not> distanceTo (position c) p1 < ALERT_RADIUS k" using far by simp
  have n: "distanceTo (position c1) p2 < ALERT_RADIUS k" using near by simp
  have "mode c1 = Wander" using moved_alert_mode(2) [OF c1] f by simp
  moreover have "mode c2 = Chase" using moved_alert_mode(2) [OF c2] n by simp
  moreover have "(vx (velocity c1))\<^sup>2 + (vz (velocity c1))\<^sup>2 < (3 / 10)\<^sup>2"
    by (rule moved_from_rest [OF c1 f rest k(1)])
  then have "towardPlayer p2 (position c1) (velocity c2) > 0"
    by (rule moved_positive [OF c2 n flat _ k(2)])
  ultimately show ?thesis by simp
qed

lemma paramsF_speeds: "WANDER_SPEED paramsF = 12 / 10" "CHASE_SPEED paramsF = 22 / 10"
  by (simp_all add: paramsF_def)

lemma paramsR_speeds: "WANDER_SPEED paramsR = 12 / 10" "CHASE_SPEED paramsR = 22 / 10"
  by (simp_all add: paramsR_def)

lemma scenarioF:
  assumes "player e = Some p1" "player e2 = Some p2" "mode c \<noteq> Drumstick"
    "velocity c = V3 0 0 0" "\<not> fireTestF e p1 i c"
    "distanceTo (position c) p1 = ALERT_RADIUS paramsF + 1"
    "\<not> fireTestF e2 p2 i (fst (stepF i e c))"
    "distanceTo (position (fst (stepF i e c))) p2 = ALERT_RADIUS paramsF - 1"
    "flatDistance p2 (position (fst (stepF i e c))) > 1 / 100"
  shows "mode (fst (stepF i e c)) = Wander \<and>
     mode (fst (stepF i e2 (fst (stepF i e c)))) = Chase \<and>
     towardPlayer p2 (position (fst (stepF i e c))) (velocity (fst (stepF i e2 (fst (stepF i e c))))) > 0"
proof -
  obtain t1 where
    t1: "fst (stepF i e c) = (moveChicken paramsF e p1 (random e i) c)\<lparr>lastPlayerHit := t1\<rparr>"
    using stepF_moved [OF assms(1,3,5)] by blast
  have "mode (fst (stepF i e c)) = Wander"
    using moved_alert_mode(2) [OF t1] assms(6) by simp
  then have m: "mode (fst (stepF i e c)) \<noteq> Drumstick" by simp
  obtain t2 where
    t2: "fst (stepF i e2 (fst (stepF i e c))) =
      (moveChicken paramsF e2 p2 (random e2 i) (fst (stepF i e c)))\<lparr>lastPlayerHit := t2\<rparr>"
    using stepF_moved [OF assms(2) m assms(7)] by blast
  show ?thesis
    by (rule scenario_moved [OF t1 t2 assms(4,6,8,9) paramsF_speeds])
qed

lemma scenarioR:
  assumes "player e = Some p1" "player e2 = Some p2" "mode d \<noteq> Drumstick" "mode d \<noteq> Respawn"
    "velocity d = V3 0 0 0" "\<not> fireTestR e p1 i d"
    "distanceTo (position d) p1 = ALERT_RADIUS paramsR + 1"
    "\<not> fireTestR e2 p2 i (fst (stepR i e d))"
    "distanceTo (position (fst (stepR i e d))) p2 = ALERT_RADIUS paramsR - 1"
    "flatDistance p2 (position (fst (stepR i e d))) > 1 / 100"
  shows "mode (fst (stepR i e d)) = Wander \<and>
     mode (fst (stepR i e2 (fst (stepR i e d)))) = Chase \<and>
     towardPlayer p2 (position (fst (stepR i e d))) (velocity (fst (stepR i e2 (fst (stepR i e d))))) > 0"
proof -
  obtain t1 where
    t1: "fst (stepR i e d) = (moveChicken paramsR e p1 (random e i) d)\<lparr>lastPlayerHit := t1\<rparr>"
    using stepR_moved [OF assms(1,3,4,6)] by blast
  have "mode (fst (stepR i e d)) = Wander"
    using moved_alert_mode(2) [OF t1] assms(7) by simp
  then have m: "mode (fst (stepR i e d)) \<noteq> Drumstick" "mode (fst (stepR i e d)) \<noteq> Respawn"
    by simp_all
  obtain t2 where
    t2: "fst (stepR i e2 (fst (stepR i e d))) =
      (moveChicken paramsR e2 p2 (random e2 i) (fst (stepR i e d)))\<lparr>lastPlayerHit := t2\<rparr>"
    using stepR_moved [OF assms(2) m assms(8)] by blast
  show ?thesis
    by (rule scenario_moved [OF t1 t2 assms(5,7,9,10) paramsR_speeds])
qed

lemma stepF_props:
  assumes "player e = Some p" "mode c \<noteq> Drumstick" "\<not> fireTestF e p i c"
  shows "alert (fst (stepF i e c)) = (distanceTo (position c) p < ALERT_RADIUS paramsF)"
    and "mode (fst (stepF i e c)) =
        (if distanceTo (position c) p < ALERT_RADIUS paramsF then Chase else Wander)"
    and "velocity (fst (stepF i e c)) =
        lerpV (velocity c)
          (desiredVelocity paramsF p (position c)
             (distanceTo (position c) p < ALERT_RADIUS paramsF) (wanderDir (fst (stepF i e c))))
          (12 / 100)"
    and "distanceTo (position c) p < ALERT_RADIUS paramsF \<Longrightarrow> flatDistance p (position c) > 1 / 100 \<Longrightarrow>
         towardPlayer p (position c) (velocity (fst (stepF i e c))) =
           88 / 100 * towardPlayer p (position c) (velocity c) +
           12 / 100 * CHASE_SPEED paramsF * flatDistance p (position c)"
    and "distanceTo (position c) p < ALERT_RADIUS paramsF \<Longrightarrow> flatDistance p (position c) > 1 / 100 \<Longrightarrow>
         (vx (velocity c))\<^sup>2 + (vz (velocity c))\<^sup>2 < (3 / 10)\<^sup>2 \<Longrightarrow>
         towardPlayer p (position c) (velocity (fst (stepF i e c))) > 0"
proof -
  obtain t where
    t: "fst (stepF i e c) = (moveChicken paramsF e p (random e i) c)\<lparr>lastPlayerHit := t\<rparr>"
    using stepF_moved [OF assms] by blast
  show "alert (fst (stepF i e c)) = (distanceTo (position c) p < ALERT_RADIUS paramsF)"
    by (rule moved_alert_mode(1) [OF t])
  show "mode (fst (stepF i e c)) =
        (if distanceTo (position c) p < ALERT_RADIUS paramsF then Chase else Wander)"
    by (rule moved_alert_mode(2) [OF t])
  show "velocity (fst (stepF i e c)) =
        lerpV (velocity c)
          (desiredVelocity paramsF p (position c)
             (distanceTo (position c) p < ALERT_RADIUS paramsF) (wanderDir (fst (stepF i e c))))
          (12 / 100)"
    by (rule moved_alert_mode(3) [OF t])
  show "distanceTo (position c) p < ALERT_RADIUS paramsF \<Longrightarrow> flatDistance p (position c) > 1 / 100 \<Longrightarrow>
         towardPlayer p (position c) (velocity (fst (stepF i e c))) =
           88 / 100 * towardPlayer p (position c) (velocity c) +
           12 / 100 * CHASE_SPEED paramsF * flatDistance p (position c)"
    by (rule moved_toward [OF t])
  show "distanceTo (position c) p < ALERT_RADIUS paramsF \<Longrightarrow> flatDistance p (position c) > 1 / 100 \<Longrightarrow>
         (vx (velocity c))\<^sup>2 + (vz (velocity c))\<^sup>2 < (3 / 10)\<^sup>2 \<Longrightarrow>
         towardPlayer p (position c) (velocity (fst (stepF i e c))) > 0"
    by (rule moved_positive [OF t _ _ _ paramsF_speeds(2)])
qed

lemma stepR_props:
  assumes "player e = Some p" "mode c \<noteq> Drumstick" "mode c \<noteq> Respawn" "\<not> fireTestR e p i c"
  shows "alert (fst (stepR i e c)) = (distanceTo (position c) p < ALERT_RADIUS paramsR)"
    and "mode (fst (stepR i e c)) =
        (if distanceTo (position c) p < ALERT_RADIUS paramsR then Chase else Wander)"
    and "velocity (fst (stepR i e c)) =
        lerpV (velocity c)
          (desiredVelocity paramsR p (position c)
             (distanceTo (position c) p < ALERT_RADIUS paramsR) (wanderDir (fst (stepR i e c))))
          (12 / 100)"
    and "distanceTo (position c) p < ALERT_RADIUS paramsR \<Longrightarrow> flatDistance p (position c) > 1 / 100 \<Longrightarrow>
         towardPlayer p (position c) (velocity (fst (stepR i e c))) =
           88 / 100 * towardPlayer p (position c) (velocity c) +
           12 / 100 * CHASE_SPEED paramsR * flatDistance p (position c)"
    and "distanceTo (position c) p < ALERT_RADIUS paramsR \<Longrightarrow> flatDistance p (position c) > 1 / 100 \<Longrightarrow>
         (vx (velocity c))\<^sup>2 + (vz (velocity c))\<^sup>2 < (3 / 10)\<^sup>2 \<Longrightarrow>
         towardPlayer p (position c) (velocity (fst (stepR i e c))) > 0"
proof -
  obtain t where
    t: "fst (stepR i e c) = (moveChicken paramsR e p (random e i) c)\<lparr>lastPlayerHit := t\<rparr>"
    using stepR_moved [OF assms] by blast
  show "alert (fst (stepR i e c)) = (distanceTo (position c) p < ALERT_RADIUS paramsR)"
    by (rule moved_alert_mode(1) [OF t])
  show "mode (fst (stepR i e c)) =
        (if distanceTo (position c) p < ALERT_RADIUS paramsR then Chase else Wander)"
    by (rule moved_alert_mode(2) [OF t])
  show "velocity (fst (stepR i e c)) =
        lerpV (velocity c)
          (desiredVelocity paramsR p (position c)
             (distanceTo (position c) p < ALERT_RADIUS paramsR) (wanderDir (fst (stepR i e c))))
          (12 / 100)"
    by (rule moved_alert_mode(3) [OF t])
  show "distanceTo (position c) p < ALERT_RADIUS paramsR \<Longrightarrow> flatDistance p (position c) > 1 / 100 \<Longrightarrow>
         towardPlayer p (position c) (velocity (fst (stepR i e c))) =
           88 / 100 * towardPlayer p (position c) (velocity c) +
           12 / 100 * CHASE_SPEED paramsR * flatDistance p (position c)"
    by (rule moved_toward [OF t])
  show "distanceTo (position c) p < ALERT_RADIUS paramsR \<Longrightarrow> flatDistance p (position c) > 1 / 100 \<Longrightarrow>
         (vx (velocity c))\<^sup>2 + (vz (velocity c))\<^sup>2 < (3 / 10)\<^sup>2 \<Longrightarrow>
         towardPlayer p (position c) (velocity (fst (stepR i e c))) > 0"
    by (rule moved_positive [OF t _ _ _ paramsR_speeds(2)])
qed

text \<open>
  Claim C8, as amended. In both files with the hit cooldown, for a creature that is neither
  captured nor respawning, in a frame whose update runs and whose fire test fails:
  \<^item> \<open>alert\<close> becomes true exactly when the distance from the creature (where the frame
    starts) to the player is below \<open>ALERT_RADIUS\<close>, and the mode becomes Chase when alert
    and Wander otherwise;
  \<^item> the velocity moves 12 percent of the way to the desired velocity; when alert and the
    horizontal distance to the player exceeds 0.01, its horizontal component toward the
    player becomes 0.88 times the old one plus \<open>0.12 * CHASE_SPEED\<close> times that distance;
    this is positive whenever the creature was slower than 0.3 horizontally;
  \<^item> so a creature placed at rest at distance \<open>ALERT_RADIUS + 1\<close> is in Wander after one
    update, and when the player is then at distance \<open>ALERT_RADIUS - 1\<close> (not straight above
    or below it) the next update puts it in Chase with a velocity that has a positive
    component toward the player.
\<close>

theorem alert_selects_chase:
  "(\<forall>p. player e = Some p \<and> mode c \<noteq> Drumstick \<and> \<not> fireTestF e p i c \<longrightarrow>
      alert (fst (stepF i e c)) = (distanceTo (position c) p < ALERT_RADIUS paramsF) \<and>
      mode (fst (stepF i e c)) =
        (if distanceTo (position c) p < ALERT_RADIUS paramsF then Chase else Wander) \<and>
      velocity (fst (stepF i e c)) =
        lerpV (velocity c)
          (desiredVelocity paramsF p (position c)
             (distanceTo (position c) p < ALERT_RADIUS paramsF) (wanderDir (fst (stepF i e c))))
          (12 / 100) \<and>
      (distanceTo (position c) p < ALERT_RADIUS paramsF \<and> flatDistance p (position c) > 1 / 100 \<longrightarrow>
         towardPlayer p (position c) (velocity (fst (stepF i e c))) =
           88 / 100 * towardPlayer p (position c) (velocity c) +
           12 / 100 * CHASE_SPEED paramsF * flatDistance p (position c)) \<and>
      (distanceTo (position c) p < ALERT_RADIUS paramsF \<and> flatDistance p (position c) > 1 / 100 \<and>
       (vx (velocity c))\<^sup>2 + (vz (velocity c))\<^sup>2 < (3 / 10)\<^sup>2 \<longrightarrow>
         towardPlayer p (position c) (velocity (fst (stepF i e c))) > 0)) \<and>
   (\<forall>p. player e = Some p \<and> mode d \<noteq> Drumstick \<and> mode d \<noteq> Respawn \<and> \<not> fireTestR e p i d \<longrightarrow>
      alert (fst (stepR i e d)) = (distanceTo (position d) p < ALERT_RADIUS paramsR) \<and>
      mode (fst (stepR i e d)) =
        (if distanceTo (position d) p < ALERT_RADIUS paramsR then Chase else Wander) \<and>
      velocity (fst (stepR i e d)) =
        lerpV (velocity d)
          (desiredVelocity paramsR p (position d)
             (distanceTo (position d) p < ALERT_RADIUS paramsR) (wanderDir (fst (stepR i e d))))
          (12 / 100) \<and>
      (distanceTo (position d) p < ALERT_RADIUS paramsR \<and> flatDistance p (position d) > 1 / 100 \<longrightarrow>
         towardPlayer p (position d) (velocity (fst (stepR i e d))) =
           88 / 100 * towardPlayer p (position d) (velocity d) +
           12 / 100 * CHASE_SPEED paramsR * flatDistance p (position d)) \<and>
      (distanceTo (position d) p < ALERT_RADIUS paramsR \<and> flatDistance p (position d) > 1 / 100 \<and>
       (vx (velocity d))\<^sup>2 + (vz (velocity d))\<^sup>2 < (3 / 10)\<^sup>2 \<longrightarrow>
         towardPlayer p (position d) (velocity (fst (stepR i e d))) > 0)) \<and>
   (\<forall>p1 p2. player e = Some p1 \<and> player e2 = Some p2 \<and> mode c \<noteq> Drumstick \<and>
      velocity c = V3 0 0 0 \<and> \<not> fireTestF e p1 i c \<and>
      distanceTo (position c) p1 = ALERT_RADIUS paramsF + 1 \<and>
      \<not> fireTestF e2 p2 i (fst (stepF i e c)) \<and>
      distanceTo (position (fst (stepF i e c))) p2 = ALERT_RADIUS paramsF - 1 \<and>
      flatDistance p2 (position (fst (stepF i e c))) > 1 / 100 \<longrightarrow>
      mode (fst (stepF i e c)) = Wander \<and>
      mode (fst (stepF i e2 (fst (stepF i e c)))) = Chase \<and>
      towardPlayer p2 (position (fst (stepF i e c)))
        (velocity (fst (stepF i e2 (fst (stepF i e c))))) > 0) \<and>
   (\<forall>p1 p2. player e = Some p1 \<and> player e2 = Some p2 \<and> mode d \<noteq> Drumstick \<and>
      mode d \<noteq> Respawn \<and> velocity d = V3 0 0 0 \<and> \<not> fireTestR e p1 i d \<and>
      distanceTo (position d) p1 = ALERT_RADIUS paramsR + 1 \<and>
      \<not> fireTestR e2 p2 i (fst (stepR i e d)) \<and>
      distanceTo (position (fst (stepR i e d))) p2 = ALERT_RADIUS paramsR - 1 \<and>
      flatDistance p2 (position (fst (stepR i e d))) > 1 / 100 \<longrightarrow>
      mode (fst (stepR i e d)) = Wander \<and>
      mode (fst (stepR i e2 (fst (stepR i e d)))) = Chase \<and>
      towardPlayer p2 (position (fst (stepR i e d)))
        (velocity (fst (stepR i e2 (fst (stepR i e d))))) > 0)"
proof (intro conjI allI impI, goal_cases)
  case (1 p) then show ?case using stepF_props(1) by blast
next
  case (2 p) then show ?case using stepF_props(2) by blast
next
  case (3 p) then show ?case using stepF_props(3) by blast
next
  case (4 p) then show ?case using stepF_props(4) by blast
next
  case (5 p) then show ?case using stepF_props(5) by blast
next
  case (6 p) then show ?case using stepR_props(1) by blast
next
  case (7 p) then show ?case using stepR_props(2) by blast
next
  case (8 p) then show ?case using stepR_props(3) by blast
next
  case (9 p) then show ?case using stepR_props(4) by blast
next
  case (10 p) then show ?case using stepR_props(5) by blast
next
  case (11 p1 p2) then show ?case using scenarioF by blast
next
  case (12 p1 p2) then show ?case using scenarioF by blast
next
  case (13 p1 p2) then show ?case using scenarioF by blast
next
  case (14 p1 p2) then show ?case using scenarioR by blast
next
  case (15 p1 p2) then show ?case using scenarioR by blast
next
  case (16 p1 p2) then show ?case using scenarioR by blast
qed

theorem alert_selects_chase_witness:
  "player chaseFrame = Some (V3 0 8 (- 87)) \<and> mode chickenAtFeet \<noteq> Drumstick \<and>
   \<not> fireTestF chaseFrame (V3 0 8 (- 87)) 0 chickenAtFeet \<and>
   distanceTo (position chickenAtFeet) (V3 0 8 (- 87)) < ALERT_RADIUS paramsF \<and>
   flatDistance (V3 0 8 (- 87)) (position chickenAtFeet) > 1 / 100 \<and>
   alert (fst (stepF 0 chaseFrame chickenAtFeet)) \<and>
   mode (fst (stepF 0 chaseFrame chickenAtFeet)) = Chase \<and>
   towardPlayer (V3 0 8 (- 87)) (position chickenAtFeet)
     (velocity (fst (stepF 0 chaseFrame chickenAtFeet))) > 0"
proof -
  have h: "player chaseFrame = Some (V3 0 8 (- 87))" "mode chickenAtFeet \<noteq> Drumstick"
    "\<not> fireTestF chaseFrame (V3 0 8 (- 87)) 0 chickenAtFeet"
    by (simp_all add: chaseFrame_def chickenAtFeet_def fireTestF_def playerActionState0_def)
  have "distanceTo (position chickenAtFeet) (V3 0 8 (- 87)) = 13"
    by (rule distanceTo_eq) (simp_all add: chickenAtFeet_def V3_def)
  then have d: "distanceTo (position chickenAtFeet) (V3 0 8 (- 87)) < ALERT_RADIUS paramsF"
    by (simp add: paramsF_def)
  have "flatDistance (V3 0 8 (- 87)) (position chickenAtFeet) = 13"
    by (rule flatDistance_eq) (simp_all add: chickenAtFeet_def V3_def)
  then have f: "flatDistance (V3 0 8 (- 87)) (position chickenAtFeet) > 1 / 100"
    by simp
  have s: "(vx (velocity chickenAtFeet))\<^sup>2 + (vz (velocity chickenAtFeet))\<^sup>2 < (3 / 10)\<^sup>2"
    by (simp add: chickenAtFeet_def V3_def)
  note T = alert_selects_chase [of chaseFrame chickenAtFeet 0, THEN conjunct1, rule_format,
      of "V3 0 8 (- 87)", OF conjI [OF h(1) conjI [OF h(2) h(3)]]]
  have "alert (fst (stepF 0 chaseFrame chickenAtFeet))"
    using T d by simp
  moreover have "mode (fst (stepF 0 chaseFrame chickenAtFeet)) = Chase"
    using T d by simp
  moreover have "towardPlayer (V3 0 8 (- 87)) (position chickenAtFeet)
      (velocity (fst (stepF 0 chaseFrame chickenAtFeet))) > 0"
    using T d f s by blast
  ultimately show ?thesis
    using h d f by simp
qed

text \<open>
  Claim C8 as stated fails for a creature that is already moving: a chicken wandering away
  from the player at wander speed is in Wander at distance \<open>ALERT_RADIUS + 1\<close>; with the
  player at distance \<open>ALERT_RADIUS - 1\<close> the next update puts it in Chase, and its velocity
  still points away from the player.
\<close>

theorem chase_velocity_counterexample:
  "distanceTo (position fleeingChicken) (V3 0 8 (- 85)) = ALERT_RADIUS paramsF + 1 \<and>
   player farFrame = Some (V3 0 8 (- 85)) \<and>
   mode (fst (stepF 0 farFrame fleeingChicken)) = Wander \<and>
   player nearFrame = Some (V3 0 8 (- 8702 / 100)) \<and>
   distanceTo (position (fst (stepF 0 farFrame fleeingChicken))) (V3 0 8 (- 8702 / 100)) =
     ALERT_RADIUS paramsF - 1 \<and>
   mode (fst (stepF 0 nearFrame (fst (stepF 0 farFrame fleeingChicken)))) = Chase \<and>
   velocity (fst (stepF 0 nearFrame (fst (stepF 0 farFrame fleeingChicken)))) =
     V3 0 0 (- 792 / 1000) \<and>
   towardPlayer (V3 0 8 (- 8702 / 100)) (position (fst (stepF 0 farFrame fleeingChicken)))
     (velocity (fst (stepF 0 nearFrame (fst (stepF 0 farFrame fleeingChicken))))) < 0"
proof -
  define c1 where "c1 = fst (stepF 0 farFrame fleeingChicken)"
  define c2 where "c2 = fst (stepF 0 nearFrame c1)"
  have pf: "player farFrame = Some (V3 0 8 (- 85))"
    and pn: "player nearFrame = Some (V3 0 8 (- 8702 / 100))"
    and nf: "\<not> fireActive (playerFire farFrame)" "\<not> fireActive (playerFire nearFrame)"
    and m0: "mode fleeingChicken \<noteq> Drumstick"
    by (simp_all add: farFrame_def nearFrame_def chaseFrame_def playerActionState0_def
        fleeingChicken_def chickenAtFeet_def)
  have ar: "ALERT_RADIUS paramsF = 14" by (simp add: paramsF_def)
  have d1: "distanceTo (position fleeingChicken) (V3 0 8 (- 85)) = 15"
    by (rule distanceTo_eq) (simp_all add: fleeingChicken_def chickenAtFeet_def V3_def)
  have t1: "\<not> fireTestF farFrame (V3 0 8 (- 85)) 0 fleeingChicken"
    using nf by (simp add: fireTestF_def)
  have mode1: "mode c1 = Wander"
    unfolding c1_def using stepF_props(2) [OF pf m0 t1] by (simp add: d1 ar)
  obtain t where t: "c1 = (moveChicken paramsF farFrame (V3 0 8 (- 85)) (random farFrame 0)
      fleeingChicken)\<lparr>lastPlayerHit := t\<rparr>"
    using stepF_moved [OF pf m0 t1] by (auto simp add: c1_def)
  have w1: "wanderDir c1 = pi"
    by (simp add: t moveChicken_def Let_def fleeingChicken_def chickenAtFeet_def farFrame_def
        chaseFrame_def)
  have v0: "velocity fleeingChicken = V3 0 0 (- 12 / 10)"
    by (simp add: fleeingChicken_def)
  have "velocity c1 =
      lerpV (velocity fleeingChicken)
        (desiredVelocity paramsF (V3 0 8 (- 85)) (position fleeingChicken)
           (distanceTo (position fleeingChicken) (V3 0 8 (- 85)) < ALERT_RADIUS paramsF)
           (wanderDir c1))
        (12 / 100)"
    unfolding c1_def by (rule stepF_props(3) [OF pf m0 t1])
  then have "velocity c1 =
      lerpV (V3 0 0 (- 12 / 10)) (V3 (sin pi * WANDER_SPEED paramsF) 0 (cos pi * WANDER_SPEED paramsF))
        (12 / 100)"
    by (simp add: d1 w1 v0 ar desiredVelocity_wander)
  then have v1: "velocity c1 = V3 0 0 (- 12 / 10)"
    by (simp add: paramsF_def lerpV_def V3_def)
  have pos1: "position c1 = V3 0 8 (- 10002 / 100)"
    using v1
    by (simp add: t moveChicken_position)
       (simp add: fleeingChicken_def chickenAtFeet_def farFrame_def chaseFrame_def
         addScaledVector_def clamp_def paramsF_def V3_def)
  have d2: "distanceTo (position c1) (V3 0 8 (- 8702 / 100)) = 13"
    by (rule distanceTo_eq) (simp_all add: pos1 V3_def)
  have f2: "flatDistance (V3 0 8 (- 8702 / 100)) (position c1) = 13"
    by (rule flatDistance_eq) (simp_all add: pos1 V3_def)
  have m1: "mode c1 \<noteq> Drumstick" using mode1 by simp
  have t2: "\<not> fireTestF nearFrame (V3 0 8 (- 8702 / 100)) 0 c1"
    using nf by (simp add: fireTestF_def)
  have near: "distanceTo (position c1) (V3 0 8 (- 8702 / 100)) < ALERT_RADIUS paramsF"
    using d2 ar by simp
  have mode2: "mode c2 = Chase"
    unfolding c2_def using stepF_props(2) [OF pn m1 t2] near by simp
  have fl: "flatDistance (V3 0 8 (- 8702 / 100)) (position c1) > 1 / 100"
    unfolding f2 by simp
  have dv: "desiredVelocity paramsF (V3 0 8 (- 8702 / 100)) (position c1) True w = V3 0 0 (22 / 10)" for w
    unfolding desiredVelocity_chase [OF fl] f2
    by (simp add: pos1 paramsF_def V3_def)
  have "velocity c2 =
      lerpV (velocity c1)
        (desiredVelocity paramsF (V3 0 8 (- 8702 / 100)) (position c1)
           (distanceTo (position c1) (V3 0 8 (- 8702 / 100)) < ALERT_RADIUS paramsF)
           (wanderDir c2))
        (12 / 100)"
    unfolding c2_def by (rule stepF_props(3) [OF pn m1 t2])
  then have "velocity c2 = lerpV (V3 0 0 (- 12 / 10)) (V3 0 0 (22 / 10)) (12 / 100)"
    unfolding near [THEN eqTrueI] dv v1 .
  then have v2: "velocity c2 = V3 0 0 (- 792 / 1000)"
    by (simp add: lerpV_def V3_def)
  have "towardPlayer (V3 0 8 (- 8702 / 100)) (position c1) (velocity c2) < 0"
    by (simp add: v2 pos1 towardPlayer_def V3_def)
  then show ?thesis
    using pf pn d1 d2 mode1 mode2 v2
    by (simp add: c1_def [symmetric] c2_def [symmetric] ar)
qed

section \<open>The hit cooldown\<close>



















section \<open>Respawn timing\<close>




























section \<open>The population\<close>



lemma free_split: "length cs = freeCount cs + capturedCount cs"
  using sum_length_filter_compl [of "\<lambda>c. cmode c \<noteq> Drumstick" cs]
  by (simp add: freeCount_def capturedCount_def)































end
